theory Spec2Isabelle
  imports Complex_Main "HOL-Library.Word" "HOL-Library.AList" "HOL-Library.Log_Nat"
begin

section \<open>Python values, dictionaries and exceptions\<close>

text \<open>
  The scripts \<^verbatim>\<open>OPPLE_read.py\<close> and \<^verbatim>\<open>OPPLE_read_1.py\<close> pass notification payloads
  around as \<^verbatim>\<open>bytes\<close> and decoded packets as dictionaries from string keys to strings,
  integers or \<^verbatim>\<open>None\<close>. A dictionary is modelled as an association list in insertion
  order; \<^verbatim>\<open>d[k] = v\<close> is \<open>AList.update k v d\<close> and \<^verbatim>\<open>d.get(k)\<close> is \<open>dict_get d k\<close>.
  An exception that leaves a function is the \<open>Inl\<close> side of its result.
\<close>

type_synonym byte = "8 word"
type_synonym bytes = "byte list"

datatype pyval = PNone | PInt int | PStr string

type_synonym dict = "(string \<times> pyval) list"

datatype exn =
    StructError string
  | AttributeError string
  | TypeError string
  | IOError string
  | BleakError string
  | ZeroDivisionError string
  | OverflowError string

fun exn_message :: "exn \<Rightarrow> string" where
  "exn_message (StructError m) = m"
| "exn_message (AttributeError m) = m"
| "exn_message (TypeError m) = m"
| "exn_message (IOError m) = m"
| "exn_message (BleakError m) = m"
| "exn_message (ZeroDivisionError m) = m"
| "exn_message (OverflowError m) = m"

definition bind_exn :: "exn + 'a \<Rightarrow> ('a \<Rightarrow> exn + 'b) \<Rightarrow> exn + 'b" where
  "bind_exn m f = (case m of Inl e \<Rightarrow> Inl e | Inr v \<Rightarrow> f v)"

definition dict_get :: "dict \<Rightarrow> string \<Rightarrow> pyval" where
  \<comment> \<open>\<^verbatim>\<open>d.get(k)\<close>: \<^verbatim>\<open>None\<close> for a missing key.\<close>
  "dict_get d k = (case map_of d k of None \<Rightarrow> PNone | Some v \<Rightarrow> v)"

subsection \<open>Strings and byte strings\<close>

definition lower_char :: "char \<Rightarrow> char" where
  "lower_char c =
     (let n = (of_char c :: nat) in if 65 \<le> n \<and> n \<le> 90 then char_of (n + 32) else c)"

definition lower :: "string \<Rightarrow> string" where
  \<comment> \<open>\<^verbatim>\<open>str.lower()\<close> on the ASCII letters; the UUID strings are ASCII.\<close>
  "lower s = map lower_char s"

definition startswith :: "string \<Rightarrow> string \<Rightarrow> bool" where
  "startswith s p = (take (length p) s = p)"

definition hex_digit :: "nat \<Rightarrow> char" where
  "hex_digit n = ''0123456789abcdef'' ! n"

definition hex :: "bytes \<Rightarrow> string" where
  \<comment> \<open>\<^verbatim>\<open>bytes.hex()\<close>: two lower-case hexadecimal digits per byte.\<close>
  "hex bs = concat (map (\<lambda>b. [hex_digit (unat b div 16), hex_digit (unat b mod 16)]) bs)"

fun str_nat :: "nat \<Rightarrow> string" where
  "str_nat n =
     (if n < 10 then [''0123456789'' ! n] else str_nat (n div 10) @ [''0123456789'' ! (n mod 10)])"

declare str_nat.simps [simp del]

text \<open>\<^verbatim>\<open>str(n)\<close> for an integer (the decimal digits), as f-strings and the csv writer use it.\<close>

definition str_int :: "int \<Rightarrow> string" where
  "str_int i = (if i < 0 then CHR ''-'' # str_nat (nat (- i)) else str_nat (nat i))"

definition py_slice :: "'a list \<Rightarrow> nat \<Rightarrow> nat \<Rightarrow> 'a list" where
  \<comment> \<open>\<^verbatim>\<open>xs[i:j]\<close> for constant \<open>0 \<le> i \<le> j\<close>: a slice is cut at the end of the
      sequence, it never raises.\<close>
  "py_slice xs i j = take (j - i) (drop i xs)"

subsection \<open>\<^verbatim>\<open>struct.unpack\<close>\<close>

text \<open>
  \<^verbatim>\<open>struct.unpack('<H', b)[0]\<close> and \<^verbatim>\<open>struct.unpack('>H', b)[0]\<close>: the buffer must
  hold exactly two bytes, otherwise \<^verbatim>\<open>struct.error\<close> is raised.
\<close>

fun unpack_le_H :: "bytes \<Rightarrow> exn + int" where
  "unpack_le_H [b0, b1] = Inr (uint b0 + 256 * uint b1)"
| "unpack_le_H _ = Inl (StructError ''unpack requires a buffer of 2 bytes'')"

fun unpack_be_H :: "bytes \<Rightarrow> exn + int" where
  "unpack_be_H [b0, b1] = Inr (256 * uint b0 + uint b1)"
| "unpack_be_H _ = Inl (StructError ''unpack requires a buffer of 2 bytes'')"

section \<open>The frame parser\<close>

definition OPPLE_CHARACTERISTIC_UUID_DATA_RX :: string where
  "OPPLE_CHARACTERISTIC_UUID_DATA_RX = ''6e400002-b5a3-f393-e0a9-e50e24dcca9e''"

definition OPPLE_CHARACTERISTIC_UUID_COMMAND_TX :: string where
  "OPPLE_CHARACTERISTIC_UUID_COMMAND_TX = ''6e400003-b5a3-f393-e0a9-e50e24dcca9e''"

text \<open>\<^verbatim>\<open>parse_opple_data\<close> returns a dictionary or a message string.\<close>

datatype parse_result = Dict dict | Str string

definition parse_20_byte :: "bytes \<Rightarrow> dict \<Rightarrow> exn + parse_result" where
  \<comment> \<open>The body of the \<^verbatim>\<open>try\<close> block of the 20-byte branch.\<close>
  "parse_20_byte data parsed =
     bind_exn (unpack_le_H (py_slice data 14 16)) (\<lambda>raw_val1.
     bind_exn (unpack_le_H (py_slice data 16 18)) (\<lambda>raw_val2.
     bind_exn (unpack_le_H (py_slice data 18 20)) (\<lambda>raw_val3.
       let parsed = AList.update ''RawVal_1'' (PInt raw_val1) parsed;
           parsed = AList.update ''RawVal_2'' (PInt raw_val2) parsed;
           parsed = AList.update ''RawVal_3'' (PInt raw_val3) parsed;
           parsed = (if raw_val1 = 0 \<and> raw_val2 = 0 \<and> raw_val3 = 0
                     then AList.update ''measurement_state'' (PStr ''DARK'') parsed
                     else AList.update ''measurement_state'' (PStr ''LIGHT_DETECTED'') parsed)
       in Inr (Dict parsed))))"

definition parse_11_byte :: "bytes \<Rightarrow> dict \<Rightarrow> exn + parse_result" where
  \<comment> \<open>The body of the \<^verbatim>\<open>try\<close> block of the 11-byte branch.\<close>
  "parse_11_byte data parsed =
     bind_exn (unpack_be_H (py_slice data 8 10)) (\<lambda>raw_battery_mv.
       let parsed = AList.update ''RawBattery_mV'' (PInt raw_battery_mv) parsed
       in Inr (Dict parsed))"

definition parse_opple_data :: "bytes \<Rightarrow> string \<Rightarrow> exn + parse_result" where
  "parse_opple_data data source_uuid =
     (let parsed = [] in
      if lower source_uuid = lower OPPLE_CHARACTERISTIC_UUID_COMMAND_TX then
        if length data = 20 then
          let parsed = AList.update ''packet_type'' (PStr ''20_byte_measurement_or_status'') parsed;
              parsed = AList.update ''raw_hex'' (PStr (hex data)) parsed
          in (case parse_20_byte data parsed of
                Inr r \<Rightarrow> Inr r
              | Inl (StructError e) \<Rightarrow>
                  Inr (Str (''ERROR: Could not unpack 20-byte data from '' @ source_uuid
                            @ '': '' @ e))
              | Inl e \<Rightarrow>
                  Inr (Str (''ERROR: Unknown parsing error for 20-byte data from ''
                            @ source_uuid @ '': '' @ exn_message e)))
        else if length data = 11 then
          let parsed = AList.update ''packet_type'' (PStr ''11_byte_status_or_battery'') parsed;
              parsed = AList.update ''raw_hex'' (PStr (hex data)) parsed
          in (case parse_11_byte data parsed of
                Inr r \<Rightarrow> Inr r
              | Inl (StructError e) \<Rightarrow>
                  Inr (Str (''ERROR: Could not unpack 11-byte battery data from ''
                            @ source_uuid @ '': '' @ e))
              | Inl e \<Rightarrow>
                  Inr (Str (''ERROR: Unknown parsing error for 11-byte data from ''
                            @ source_uuid @ '': '' @ exn_message e)))
        else
          let parsed = AList.update ''packet_type''
                         (PStr (''UNKNOWN_LEN_FROM_COMMAND_CHAR ('' @ str_nat (length data)
                                @ ''B)'')) parsed;
              parsed = AList.update ''raw_hex'' (PStr (hex data)) parsed
          in Inr (Dict parsed)
      else if lower source_uuid = lower OPPLE_CHARACTERISTIC_UUID_DATA_RX then
        let parsed = AList.update ''packet_type''
                       (PStr ''MEASUREMENT_DATA_CANDIDATE_FROM_RX_CHAR'') parsed;
            parsed = AList.update ''raw_hex'' (PStr (hex data)) parsed;
            parsed = AList.update ''data_length'' (PInt (int (length data))) parsed
        in Inr (Dict parsed)
      else
        Inr (Str (''INFO: Data from unhandled characteristic '' @ source_uuid
                  @ '' (Length '' @ str_nat (length data) @ ''): '' @ hex data)))"

text \<open>The little-endian and big-endian 16-bit readings of the spec, at a byte offset.\<close>

definition le16 :: "bytes \<Rightarrow> nat \<Rightarrow> int" where
  "le16 data i = uint (data ! i) + 256 * uint (data ! (i + 1))"

definition be16 :: "bytes \<Rightarrow> nat \<Rightarrow> int" where
  "be16 data i = 256 * uint (data ! i) + uint (data ! (i + 1))"

text \<open>
  The dictionaries the parser builds for the two known frame lengths, written out with the
  readings of the spec.
\<close>

definition primary_dict :: "bytes \<Rightarrow> dict" where
  "primary_dict data =
     [(''packet_type'', PStr ''20_byte_measurement_or_status''),
      (''raw_hex'', PStr (hex data)),
      (''RawVal_1'', PInt (le16 data 14)),
      (''RawVal_2'', PInt (le16 data 16)),
      (''RawVal_3'', PInt (le16 data 18)),
      (''measurement_state'',
         PStr (if le16 data 14 = 0 \<and> le16 data 16 = 0 \<and> le16 data 18 = 0
               then ''DARK'' else ''LIGHT_DETECTED''))]"

definition auxiliary_dict :: "bytes \<Rightarrow> dict" where
  "auxiliary_dict data =
     [(''packet_type'', PStr ''11_byte_status_or_battery''),
      (''raw_hex'', PStr (hex data)),
      (''RawBattery_mV'', PInt (be16 data 8))]"

section \<open>The notification handlers\<close>

text \<open>
  Both handlers are state transformers on the global list \<^verbatim>\<open>current_measurements\<close>. The
  time stamp comes from the clock and is an argument here. Console output and the raw
  text log (whose \<^verbatim>\<open>IOError\<close> is caught on the spot) do not touch the list and are left
  out. Calling \<^verbatim>\<open>.get\<close> on a string raises \<^verbatim>\<open>AttributeError\<close>.
\<close>

definition notification_handler ::
    "string \<Rightarrow> string \<Rightarrow> bytes \<Rightarrow> dict list \<Rightarrow> exn + dict list" where
  \<comment> \<open>\<^verbatim>\<open>OPPLE_read.py\<close>\<close>
  "notification_handler current_time_log sender_uuid data current_measurements =
     bind_exn (parse_opple_data data sender_uuid) (\<lambda>parsed_result.
       case parsed_result of
         Str s \<Rightarrow>
           if startswith s ''ERROR'' then Inr current_measurements
           else if startswith s ''INFO'' then Inr current_measurements
           else if s \<noteq> [] then Inl (AttributeError ''str object has no attribute get'')
           else Inr current_measurements
       | Dict d \<Rightarrow>
           if d \<noteq> [] then
             if dict_get d ''packet_type'' = PStr ''20_byte_measurement_or_status'' then
               if dict_get d ''measurement_state'' = PStr ''LIGHT_DETECTED'' then
                 let d = AList.update ''timestamp'' (PStr current_time_log) d;
                     d = AList.update ''App_Lux'' PNone d;
                     d = AList.update ''App_CCT'' PNone d;
                     d = AList.update ''App_Ra'' PNone d;
                     d = AList.update ''App_x'' PNone d;
                     d = AList.update ''App_y'' PNone d;
                     d = AList.update ''App_u'' PNone d;
                     d = AList.update ''App_v'' PNone d;
                     d = AList.update ''App_Battery_Percent'' PNone d
                 in Inr (current_measurements @ [d])
               else Inr current_measurements
             else if dict_get d ''packet_type'' = PStr ''11_byte_status_or_battery'' then
               Inr current_measurements
             else Inr current_measurements
           else Inr current_measurements)"

definition notification_handler_1 ::
    "string \<Rightarrow> string \<Rightarrow> bytes \<Rightarrow> dict list \<Rightarrow> exn + dict list" where
  \<comment> \<open>\<^verbatim>\<open>OPPLE_read_1.py\<close>\<close>
  "notification_handler_1 current_time_log sender_uuid data current_measurements =
     bind_exn (parse_opple_data data sender_uuid) (\<lambda>parsed_result.
       case parsed_result of
         Str s \<Rightarrow>
           if startswith s ''ERROR'' then Inr current_measurements
           else if startswith s ''INFO'' then Inr current_measurements
           else if s \<noteq> [] then Inl (AttributeError ''str object has no attribute get'')
           else Inr current_measurements
       | Dict d \<Rightarrow>
           if d \<noteq> [] then
             if dict_get d ''packet_type'' = PStr ''20_byte_measurement_or_status'' then
               if dict_get d ''measurement_state'' = PStr ''LIGHT_DETECTED'' then
                 let measurement_entry =
                       [(''timestamp'', PStr current_time_log),
                        (''raw_hex'', dict_get d ''raw_hex''),
                        (''RawVal_1'', dict_get d ''RawVal_1''),
                        (''RawVal_2'', dict_get d ''RawVal_2''),
                        (''RawVal_3'', dict_get d ''RawVal_3''),
                        (''RawBattery_mV'', PNone),
                        (''App_Lux'', PNone),
                        (''App_CCT'', PNone),
                        (''App_Ra'', PNone),
                        (''App_x'', PNone),
                        (''App_y'', PNone),
                        (''App_u'', PNone),
                        (''App_v'', PNone),
                        (''App_Battery_Percent'', PNone)]
                 in Inr (current_measurements @ [measurement_entry])
               else Inr current_measurements
             else if dict_get d ''packet_type'' = PStr ''11_byte_status_or_battery'' then
               if current_measurements \<noteq> []
                  \<and> dict_get (last current_measurements) ''RawBattery_mV'' = PNone
               then Inr (butlast current_measurements @
                         [AList.update ''RawBattery_mV'' (dict_get d ''RawBattery_mV'')
                            (last current_measurements)])
               else Inr current_measurements
             else Inr current_measurements
           else Inr current_measurements)"

text \<open>
  A frame as the transport hands it to a handler: arrival time, characteristic UUID and
  payload. The transport calls the handler once per notification, in order of arrival; an
  exception escaping one callback is reported by the event loop and does not stop later
  callbacks.
\<close>

type_synonym frame = "string \<times> string \<times> bytes"

type_synonym handler = "string \<Rightarrow> string \<Rightarrow> bytes \<Rightarrow> dict list \<Rightarrow> exn + dict list"

fun deliver :: "handler \<Rightarrow> frame list \<Rightarrow> dict list \<Rightarrow> dict list" where
  "deliver h [] cm = cm"
| "deliver h ((t, u, d) # rest) cm =
     deliver h rest (case h t u d cm of Inl e \<Rightarrow> cm | Inr cm' \<Rightarrow> cm')"

text \<open>
  Vocabulary for the buffer laws: the state the parser assigns to a frame (\<open>PNone\<close> when
  the frame is not a 20-byte measurement), the five fields a stored record takes from
  its frame, and a record whose three readings are all zero.
\<close>

definition frame_state :: "frame \<Rightarrow> pyval" where
  "frame_state f =
     (case f of (t, u, d) \<Rightarrow>
        (case parse_opple_data d u of
           Inr (Dict p) \<Rightarrow> dict_get p ''measurement_state''
         | _ \<Rightarrow> PNone))"

definition light_frame :: "frame \<Rightarrow> bool" where
  "light_frame f = (frame_state f = PStr ''LIGHT_DETECTED'')"

definition dark_frame :: "frame \<Rightarrow> bool" where
  "dark_frame f = (frame_state f = PStr ''DARK'')"

definition sample_fields :: "frame \<Rightarrow> pyval list" where
  "sample_fields f =
     (case f of (t, u, d) \<Rightarrow>
        [PStr t, PStr (hex d), PInt (le16 d 14), PInt (le16 d 16), PInt (le16 d 18)])"

definition primary_fields :: "dict \<Rightarrow> pyval list" where
  "primary_fields r =
     map (dict_get r) [''timestamp'', ''raw_hex'', ''RawVal_1'', ''RawVal_2'', ''RawVal_3'']"

definition dark_values :: "dict \<Rightarrow> bool" where
  "dark_values r =
     (dict_get r ''RawVal_1'' = PInt 0 \<and> dict_get r ''RawVal_2'' = PInt 0
      \<and> dict_get r ''RawVal_3'' = PInt 0)"

section \<open>Export to a CSV file\<close>

text \<open>
  The file system holds, for each file name, the rows written to it, each row a list of
  cells; the quoting and line ends of the csv module are not modelled. Opening a file
  named in \<open>unwritable\<close> raises \<^verbatim>\<open>IOError\<close>. The csv writer stores \<^verbatim>\<open>None\<close> as the
  empty cell and any other value as its \<^verbatim>\<open>str\<close>.
\<close>

record filesystem =
  files :: "(string \<times> string list list) list"
  unwritable :: "string list"

definition open_w :: "string \<Rightarrow> filesystem \<Rightarrow> exn + filesystem" where
  \<comment> \<open>\<^verbatim>\<open>open(filename, 'w')\<close>: the file is created or emptied.\<close>
  "open_w filename disk =
     (if filename \<in> set (unwritable disk) then Inl (IOError ''cannot open file'')
      else Inr (disk\<lparr>files := AList.update filename [] (files disk)\<rparr>))"

definition write_row :: "string \<Rightarrow> string list \<Rightarrow> filesystem \<Rightarrow> filesystem" where
  "write_row filename row disk =
     disk\<lparr>files := AList.update filename
               ((case map_of (files disk) filename of None \<Rightarrow> [] | Some rows \<Rightarrow> rows) @ [row])
               (files disk)\<rparr>"

fun csv_cell :: "pyval \<Rightarrow> string" where
  "csv_cell PNone = []"
| "csv_cell (PInt i) = str_int i"
| "csv_cell (PStr s) = s"

definition fieldnames :: "string list" where
  "fieldnames =
     [''timestamp'', ''raw_hex'', ''RawVal_1'', ''RawVal_2'', ''RawVal_3'', ''RawBattery_mV'',
      ''App_Lux'', ''App_CCT'', ''App_Ra'', ''App_x'', ''App_y'', ''App_u'', ''App_v'',
      ''App_Battery_Percent'']"

definition clean_row :: "dict \<Rightarrow> string list" where
  \<comment> \<open>\<^verbatim>\<open>{field: row.get(field) for field in fieldnames}\<close>, as the writer stores it.\<close>
  "clean_row row = map (\<lambda>field. csv_cell (dict_get row field)) fieldnames"

definition save_measurements_to_csv ::
    "string \<Rightarrow> dict list \<Rightarrow> filesystem \<Rightarrow> exn + filesystem" where
  "save_measurements_to_csv filename data_list disk =
     (if data_list = [] then Inr disk
      else
        (case bind_exn (open_w filename disk) (\<lambda>opened.
                let with_header = write_row filename fieldnames opened
                in Inr (fold (\<lambda>row. write_row filename (clean_row row)) data_list with_header))
         of Inr written \<Rightarrow> Inr written
          | Inl (IOError e) \<Rightarrow> Inr disk
          | Inl e \<Rightarrow> Inl e))"

section \<open>Averages\<close>

text \<open>
  \<^verbatim>\<open>calculate_average\<close> of \<^verbatim>\<open>OPPLE_read.py\<close> divides two integers with \<^verbatim>\<open>/\<close>. Python
  returns the double nearest to the exact quotient, ties going to the even mantissa,
  raises \<^verbatim>\<open>OverflowError\<close> when that double would be \<open>2 ^ 1024\<close> or more, and
  \<^verbatim>\<open>ZeroDivisionError\<close> on a zero divisor. A finite double is \<open>m * 2 ^ e\<close> with
  \<open>\<bar>m\<bar> \<le> 2 ^ 53\<close> and \<open>- 1074 \<le> e\<close>; it is represented here by its exact rational value
  (the sign of a zero is not kept).
\<close>

definition round_half_even_div :: "int \<Rightarrow> int \<Rightarrow> int" where
  \<comment> \<open>The integer nearest to \<open>num / den\<close>, for \<open>0 \<le> num\<close> and \<open>0 < den\<close>.\<close>
  "round_half_even_div num den =
     (let q = num div den; r = num mod den
      in if 2 * r < den then q
         else if den < 2 * r then q + 1
         else if even q then q else q + 1)"

definition floor_log2_quot :: "int \<Rightarrow> int \<Rightarrow> int" where
  \<comment> \<open>For \<open>0 < a\<close> and \<open>0 < b\<close>, the \<open>f\<close> with \<open>2 ^ f \<le> a / b < 2 ^ (f + 1)\<close>.\<close>
  "floor_log2_quot a b =
     (let d = bitlen a - bitlen b
      in if (if 0 \<le> d then b * 2 ^ nat d \<le> a else b \<le> a * 2 ^ nat (- d)) then d else d - 1)"

definition nearest_double :: "int \<Rightarrow> int \<Rightarrow> int \<times> int" where
  \<comment> \<open>Mantissa and exponent of the double nearest to \<open>a / b\<close>, for \<open>0 \<le> a\<close> and \<open>0 < b\<close>.\<close>
  "nearest_double a b =
     (let e = max (floor_log2_quot a b - 52) (- 1074);
          m = (if 0 \<le> e then round_half_even_div a (b * 2 ^ nat e)
               else round_half_even_div (a * 2 ^ nat (- e)) b)
      in (m, e))"

definition double_value :: "int \<times> int \<Rightarrow> rat" where
  "double_value me =
     (case me of (m, e) \<Rightarrow>
        if 0 \<le> e then of_int (m * 2 ^ nat e) else of_int m / 2 ^ nat (- e))"

definition py_truediv :: "int \<Rightarrow> int \<Rightarrow> exn + rat" where
  \<comment> \<open>\<^verbatim>\<open>a / b\<close> on two Python integers.\<close>
  "py_truediv a b =
     (if b = 0 then Inl (ZeroDivisionError ''division by zero'')
      else if a = 0 then Inr 0
      else
        (case nearest_double \<bar>a\<bar> \<bar>b\<bar> of (m, e) \<Rightarrow>
           if 0 \<le> e \<and> 2 ^ 1024 \<le> m * 2 ^ nat e
           then Inl (OverflowError ''integer division result too large for a float'')
           else Inr ((if (a < 0) = (b < 0) then 1 else - 1) * double_value (m, e))))"

text \<open>
  The result of \<^verbatim>\<open>calculate_average\<close> maps each key to a float or \<^verbatim>\<open>None\<close>. \<^verbatim>\<open>sum\<close> adds
  from the left, starting at 0, and raises \<^verbatim>\<open>TypeError\<close> on a string.
\<close>

type_synonym averages = "(string \<times> rat option) list"

definition keys_to_average :: "string list" where
  "keys_to_average = [''RawVal_1'', ''RawVal_2'', ''RawVal_3'', ''RawBattery_mV'']"

fun py_sum :: "int \<Rightarrow> pyval list \<Rightarrow> exn + int" where
  "py_sum acc [] = Inr acc"
| "py_sum acc (PInt i # rest) = py_sum (acc + i) rest"
| "py_sum acc (v # rest) = Inl (TypeError ''unsupported operand type(s) for +'')"

definition values_of :: "string \<Rightarrow> dict list \<Rightarrow> pyval list" where
  \<comment> \<open>\<^verbatim>\<open>[m[key] for m in measurements if key in m and m[key] is not None]\<close>\<close>
  "values_of key measurements =
     map (\<lambda>m. dict_get m key)
       (filter (\<lambda>m. map_of m key \<noteq> None \<and> dict_get m key \<noteq> PNone) measurements)"

fun average_keys :: "string list \<Rightarrow> dict list \<Rightarrow> averages \<Rightarrow> exn + averages" where
  "average_keys [] measurements avg_data = Inr avg_data"
| "average_keys (key # keys) measurements avg_data =
     (let vals = values_of key measurements in
      if vals \<noteq> [] then
        bind_exn (py_sum 0 vals) (\<lambda>total.
        bind_exn (py_truediv total (int (length vals))) (\<lambda>quotient.
          average_keys keys measurements (AList.update key (Some quotient) avg_data)))
      else average_keys keys measurements (AList.update key None avg_data))"

definition calculate_average :: "dict list \<Rightarrow> exn + averages" where
  "calculate_average measurements =
     (if measurements = [] then Inr []
      else average_keys keys_to_average measurements [])"

text \<open>
  The spec's words: the non-null values of a field across the records, their arithmetic
  mean, and that mean as a double; a record of the buffer, whose averaged fields are
  unsigned 16-bit integers, null or absent.
\<close>

definition non_null_values :: "string \<Rightarrow> dict list \<Rightarrow> int list" where
  "non_null_values key records =
     concat (map (\<lambda>r. case dict_get r key of PInt i \<Rightarrow> [i] | _ \<Rightarrow> []) records)"

definition mean :: "int list \<Rightarrow> rat" where
  "mean xs = of_int (sum_list xs) / of_nat (length xs)"

definition mean_as_double :: "int list \<Rightarrow> rat" where
  "mean_as_double xs = double_value (nearest_double (sum_list xs) (int (length xs)))"

definition mean_or_null :: "string \<Rightarrow> dict list \<Rightarrow> rat option" where
  "mean_or_null key records =
     (if non_null_values key records = [] then None
      else Some (mean_as_double (non_null_values key records)))"

definition reading_at :: "string \<Rightarrow> dict \<Rightarrow> bool" where
  "reading_at key r =
     (case dict_get r key of
        PNone \<Rightarrow> True
      | PInt i \<Rightarrow> 0 \<le> i \<and> i < 65536
      | PStr s \<Rightarrow> False)"

definition reading_fields :: "dict \<Rightarrow> bool" where
  "reading_fields r = list_all (\<lambda>key. reading_at key r) keys_to_average"

definition rounding_error :: "rat \<Rightarrow> rat" where
  \<comment> \<open>Half a unit in the last place of the double nearest to \<open>x\<close>, at most.\<close>
  "rounding_error x = max (x / 2 ^ 53) (1 / 2 ^ 1075)"

section \<open>The phase driver\<close>




record world =
  current_measurements :: "dict list"
  disk :: filesystem
  gatt_writes :: "(string \<times> bytes) list"












section \<open>The records the handlers store\<close>

text \<open>
  The record each handler appends for a frame of 20 bytes with light detected, written
  out: in \<^verbatim>\<open>OPPLE_read.py\<close> the parsed dictionary itself with nine more keys, in
  \<^verbatim>\<open>OPPLE_read_1.py\<close> a fresh dictionary of fourteen keys.
\<close>

definition stored_record :: "string \<Rightarrow> bytes \<Rightarrow> dict" where
  "stored_record t data =
     primary_dict data @
     [(''timestamp'', PStr t),
      (''App_Lux'', PNone),
      (''App_CCT'', PNone),
      (''App_Ra'', PNone),
      (''App_x'', PNone),
      (''App_y'', PNone),
      (''App_u'', PNone),
      (''App_v'', PNone),
      (''App_Battery_Percent'', PNone)]"

definition measurement_entry :: "string \<Rightarrow> bytes \<Rightarrow> dict" where
  "measurement_entry t data =
     [(''timestamp'', PStr t),
      (''raw_hex'', PStr (hex data)),
      (''RawVal_1'', PInt (le16 data 14)),
      (''RawVal_2'', PInt (le16 data 16)),
      (''RawVal_3'', PInt (le16 data 18)),
      (''RawBattery_mV'', PNone),
      (''App_Lux'', PNone),
      (''App_CCT'', PNone),
      (''App_Ra'', PNone),
      (''App_x'', PNone),
      (''App_y'', PNone),
      (''App_u'', PNone),
      (''App_v'', PNone),
      (''App_Battery_Percent'', PNone)]"

definition attach_battery :: "bytes \<Rightarrow> dict list \<Rightarrow> dict list" where
  \<comment> \<open>The buffer after an 11-byte frame, as the spec words it.\<close>
  "attach_battery data cm =
     (if cm \<noteq> [] \<and> dict_get (last cm) ''RawBattery_mV'' = PNone
      then butlast cm @ [AList.update ''RawBattery_mV'' (PInt (be16 data 8)) (last cm)]
      else cm)"

section \<open>Example frames\<close>

definition example_frame_20 :: bytes where
  \<comment> \<open>The frame quoted in the parser's comment.\<close>
  "example_frame_20 =
     [0x80, 0x00, 0x1f, 0x00, 0x00, 0x00, 0x00, 0x00, 0x02, 0x00,
      0x00, 0x00, 0x0a, 0x01, 0x00, 0x0b, 0xb2, 0x10, 0x82, 0x16]"

definition example_dark_20 :: bytes where
  "example_dark_20 =
     [0x80, 0x00, 0x1f, 0x00, 0x00, 0x00, 0x00, 0x00, 0x02, 0x00,
      0x00, 0x00, 0x0a, 0x01, 0x00, 0x00, 0x00, 0x00, 0x00, 0x00]"

definition example_frame_11 :: bytes where
  "example_frame_11 =
     [0x80, 0x00, 0x0b, 0x00, 0x00, 0x00, 0x00, 0x00, 0x27, 0x10, 0x01]"

definition example_second_11 :: bytes where
  "example_second_11 =
     [0x80, 0x00, 0x0b, 0x00, 0x00, 0x00, 0x00, 0x00, 0x0f, 0xa0, 0x01]"

definition example_frame_12 :: bytes where
  "example_frame_12 =
     [0x80, 0x00, 0x0c, 0x00, 0x00, 0x00, 0x00, 0x00, 0x27, 0x10, 0x01, 0x02]"

definition example_scenario :: "frame list" where
  \<comment> \<open>Light, battery, dark, light: the end-to-end scenario of the spec.\<close>
  "example_scenario =
     [(''10:00:00.000'', OPPLE_CHARACTERISTIC_UUID_COMMAND_TX, example_frame_20),
      (''10:00:00.100'', OPPLE_CHARACTERISTIC_UUID_COMMAND_TX, example_frame_11),
      (''10:00:01.000'', OPPLE_CHARACTERISTIC_UUID_COMMAND_TX, example_dark_20),
      (''10:00:02.000'', OPPLE_CHARACTERISTIC_UUID_COMMAND_TX, example_frame_20)]"




section \<open>Slices of frames of the two known lengths\<close>

lemma py_slice_pair:
  assumes "i + 2 \<le> length xs"
  shows "py_slice xs i (i + 2) = [xs ! i, xs ! (i + 1)]"
proof -
  have width: "i + 2 - i = 2" by simp
  have "take 2 (drop i xs) = [xs ! i, xs ! (i + 1)]"
    using assms by (intro nth_equalityI) (auto simp: less_Suc_eq numeral_2_eq_2)
  then show ?thesis unfolding py_slice_def width .
qed

lemma unpack_le_slice:
  assumes "i + 2 \<le> length data"
  shows "unpack_le_H (py_slice data i (i + 2)) = Inr (le16 data i)"
  unfolding py_slice_pair [OF assms] le16_def by simp

lemma unpack_be_slice:
  assumes "i + 2 \<le> length data"
  shows "unpack_be_H (py_slice data i (i + 2)) = Inr (be16 data i)"
  unfolding py_slice_pair [OF assms] be16_def by simp

lemma parse_20_byte_ok:
  assumes "length data = 20"
  shows "parse_20_byte data parsed =
     Inr (Dict (AList.update ''measurement_state''
                  (PStr (if le16 data 14 = 0 \<and> le16 data 16 = 0 \<and> le16 data 18 = 0
                         then ''DARK'' else ''LIGHT_DETECTED''))
               (AList.update ''RawVal_3'' (PInt (le16 data 18))
               (AList.update ''RawVal_2'' (PInt (le16 data 16))
               (AList.update ''RawVal_1'' (PInt (le16 data 14)) parsed)))))"
proof -
  have "unpack_le_H (py_slice data 14 16) = Inr (le16 data 14)"
    using unpack_le_slice [of 14 data] assms by simp
  moreover have "unpack_le_H (py_slice data 16 18) = Inr (le16 data 16)"
    using unpack_le_slice [of 16 data] assms by simp
  moreover have "unpack_le_H (py_slice data 18 20) = Inr (le16 data 18)"
    using unpack_le_slice [of 18 data] assms by simp
  ultimately show ?thesis
    by (simp add: parse_20_byte_def bind_exn_def Let_def)
qed

lemma parse_11_byte_ok:
  assumes "length data = 11"
  shows "parse_11_byte data parsed =
     Inr (Dict (AList.update ''RawBattery_mV'' (PInt (be16 data 8)) parsed))"
proof -
  have "unpack_be_H (py_slice data 8 10) = Inr (be16 data 8)"
    using unpack_be_slice [of 8 data] assms by simp
  then show ?thesis
    by (simp add: parse_11_byte_def bind_exn_def Let_def)
qed

section \<open>Facts about the readings and the channel test\<close>

lemma lower_TX:
  "lower OPPLE_CHARACTERISTIC_UUID_COMMAND_TX = OPPLE_CHARACTERISTIC_UUID_COMMAND_TX"
  by (simp add: lower_def lower_char_def OPPLE_CHARACTERISTIC_UUID_COMMAND_TX_def)

lemma le16_eq_0: "le16 data i = 0 \<longleftrightarrow> data ! i = 0 \<and> data ! (i + 1) = 0"
proof -
  have "0 \<le> uint (data ! i)" "0 \<le> uint (data ! (i + 1))" by simp_all
  then have "uint (data ! i) + 256 * uint (data ! (i + 1)) = 0 \<longleftrightarrow>
      uint (data ! i) = 0 \<and> uint (data ! (i + 1)) = 0" by arith
  then show ?thesis by (simp add: le16_def uint_0_iff)
qed

lemma uint_byte_lt: "uint (b :: byte) < 256"
  using uint_bounded [of b] by simp

lemma le16_range: "0 \<le> le16 data i \<and> le16 data i < 65536"
  using uint_byte_lt [of "data ! i"] uint_byte_lt [of "data ! (i + 1)"]
  by (simp add: le16_def)

lemma be16_range: "0 \<le> be16 data i \<and> be16 data i < 65536"
  using uint_byte_lt [of "data ! i"] uint_byte_lt [of "data ! (i + 1)"]
  by (simp add: be16_def)

lemma parse_command_20:
  assumes "lower source_uuid = lower OPPLE_CHARACTERISTIC_UUID_COMMAND_TX"
    and "length data = 20"
  shows "parse_opple_data data source_uuid = Inr (Dict (primary_dict data))"
  using assms by (simp add: parse_opple_data_def parse_20_byte_ok primary_dict_def)

lemma parse_command_11:
  assumes "lower source_uuid = lower OPPLE_CHARACTERISTIC_UUID_COMMAND_TX"
    and "length data = 11"
  shows "parse_opple_data data source_uuid = Inr (Dict (auxiliary_dict data))"
  using assms by (simp add: parse_opple_data_def parse_11_byte_ok auxiliary_dict_def)

lemma hex_append: "hex (xs @ ys) = hex xs @ hex ys"
  by (simp add: hex_def)

section \<open>The parser on the two known frame lengths\<close>

text \<open>
  C1. On the command channel every frame of exactly 20 bytes is parsed to the
  measurement dictionary: its three raw values are the unsigned 16-bit little-endian
  integers at offsets 14-15, 16-17 and 18-19, and its state is DARK exactly when the
  three values are zero (that is, when bytes 14 to 19 are all zero), LIGHT_DETECTED
  otherwise.
\<close>

theorem parse_opple_data_primary_sample:
  assumes "lower source_uuid = lower OPPLE_CHARACTERISTIC_UUID_COMMAND_TX"
    and "length data = 20"
  shows "parse_opple_data data source_uuid =
           Inr (Dict
             [(''packet_type'', PStr ''20_byte_measurement_or_status''),
              (''raw_hex'', PStr (hex data)),
              (''RawVal_1'', PInt (le16 data 14)),
              (''RawVal_2'', PInt (le16 data 16)),
              (''RawVal_3'', PInt (le16 data 18)),
              (''measurement_state'',
                 PStr (if le16 data 14 = 0 \<and> le16 data 16 = 0 \<and> le16 data 18 = 0
                       then ''DARK'' else ''LIGHT_DETECTED''))])
         \<and> (le16 data 14 = 0 \<and> le16 data 16 = 0 \<and> le16 data 18 = 0
              \<longleftrightarrow> list_all (\<lambda>i. data ! i = 0) [14, 15, 16, 17, 18, 19])
         \<and> list_all (\<lambda>i. 0 \<le> le16 data i \<and> le16 data i < 65536) [14, 16, 18]"
proof -
  have "parse_opple_data data source_uuid = Inr (Dict (primary_dict data))"
    using assms by (rule parse_command_20)
  moreover have "le16 data 14 = 0 \<and> le16 data 16 = 0 \<and> le16 data 18 = 0
      \<longleftrightarrow> list_all (\<lambda>i. data ! i = 0) [14, 15, 16, 17, 18, 19]"
    using le16_eq_0 [of data 14] le16_eq_0 [of data 16] le16_eq_0 [of data 18] by auto
  moreover have "list_all (\<lambda>i. 0 \<le> le16 data i \<and> le16 data i < 65536) [14, 16, 18]"
    using le16_range by simp
  ultimately show ?thesis unfolding primary_dict_def by blast
qed

theorem parse_opple_data_primary_sample_witness:
  "parse_opple_data example_frame_20 ''6E400003-B5A3-F393-E0A9-E50E24DCCA9E'' =
     Inr (Dict
       [(''packet_type'', PStr ''20_byte_measurement_or_status''),
        (''raw_hex'', PStr ''80001f0000000000020000000a01000bb2108216''),
        (''RawVal_1'', PInt 2816),
        (''RawVal_2'', PInt 4274),
        (''RawVal_3'', PInt 5762),
        (''measurement_state'', PStr ''LIGHT_DETECTED'')])"
proof -
  have uuid: "lower ''6E400003-B5A3-F393-E0A9-E50E24DCCA9E'' =
      lower OPPLE_CHARACTERISTIC_UUID_COMMAND_TX"
    by code_simp
  have len: "length example_frame_20 = 20"
    by (simp add: example_frame_20_def)
  have hx: "hex example_frame_20 = ''80001f0000000000020000000a01000bb2108216''"
    by code_simp
  have vals: "le16 example_frame_20 14 = 2816" "le16 example_frame_20 16 = 4274"
    "le16 example_frame_20 18 = 5762"
    by (simp_all add: example_frame_20_def le16_def)
  show ?thesis
    using parse_opple_data_primary_sample [OF uuid len] by (simp add: hx vals)
qed

text \<open>
  C2. The worked example: a 20-byte command-channel frame whose last six bytes are
  0b 00 b2 10 82 16 has raw values 11, 4274 and 5762 and state LIGHT_DETECTED, whatever
  its first 14 bytes are.
\<close>

theorem parse_opple_data_worked_example:
  assumes "lower source_uuid = lower OPPLE_CHARACTERISTIC_UUID_COMMAND_TX"
    and "length header = 14"
  shows "parse_opple_data (header @ [0x0b, 0x00, 0xb2, 0x10, 0x82, 0x16]) source_uuid =
           Inr (Dict
             [(''packet_type'', PStr ''20_byte_measurement_or_status''),
              (''raw_hex'', PStr (hex header @ ''0b00b2108216'')),
              (''RawVal_1'', PInt 11),
              (''RawVal_2'', PInt 4274),
              (''RawVal_3'', PInt 5762),
              (''measurement_state'', PStr ''LIGHT_DETECTED'')])"
proof -
  let ?data = "header @ [0x0b, 0x00, 0xb2, 0x10, 0x82, 0x16 :: byte]"
  have len: "length ?data = 20" using assms(2) by simp
  have vals: "le16 ?data 14 = 11" "le16 ?data 16 = 4274" "le16 ?data 18 = 5762"
    using assms(2) by (simp_all add: le16_def nth_append)
  have hx: "hex ?data = hex header @ ''0b00b2108216''"
    unfolding hex_append by (simp add: hex_def hex_digit_def)
  show ?thesis
    unfolding parse_command_20 [OF assms(1) len] primary_dict_def vals hx by simp
qed

theorem parse_opple_data_worked_example_witness:
  "parse_opple_data
     ([0x80, 0x00, 0x1f, 0x00, 0x00, 0x00, 0x00, 0x00, 0x02, 0x00, 0x00, 0x00, 0x0a, 0x01]
       @ [0x0b, 0x00, 0xb2, 0x10, 0x82, 0x16])
     OPPLE_CHARACTERISTIC_UUID_COMMAND_TX =
     Inr (Dict
       [(''packet_type'', PStr ''20_byte_measurement_or_status''),
        (''raw_hex'', PStr ''80001f0000000000020000000a010b00b2108216''),
        (''RawVal_1'', PInt 11),
        (''RawVal_2'', PInt 4274),
        (''RawVal_3'', PInt 5762),
        (''measurement_state'', PStr ''LIGHT_DETECTED'')])"
proof -
  have hx: "hex [0x80, 0x00, 0x1f, 0x00, 0x00, 0x00, 0x00, 0x00, 0x02, 0x00, 0x00, 0x00,
      0x0a, 0x01] = ''80001f0000000000020000000a01''"
    by code_simp
  show ?thesis
    using parse_opple_data_worked_example [of OPPLE_CHARACTERISTIC_UUID_COMMAND_TX
      "[0x80, 0x00, 0x1f, 0x00, 0x00, 0x00, 0x00, 0x00, 0x02, 0x00, 0x00, 0x00, 0x0a, 0x01]"]
    by (simp add: hx)
qed

text \<open>
  C3. On the command channel every frame of exactly 11 bytes is parsed to the battery
  dictionary, whose RawBattery_mV is the unsigned 16-bit big-endian integer at offsets
  8-9; the bytes 27 10 there give 10000.
\<close>

theorem parse_opple_data_auxiliary_sample:
  assumes "lower source_uuid = lower OPPLE_CHARACTERISTIC_UUID_COMMAND_TX"
    and "length data = 11"
  shows "parse_opple_data data source_uuid =
           Inr (Dict
             [(''packet_type'', PStr ''11_byte_status_or_battery''),
              (''raw_hex'', PStr (hex data)),
              (''RawBattery_mV'', PInt (be16 data 8))])
         \<and> 0 \<le> be16 data 8 \<and> be16 data 8 < 65536
         \<and> (data ! 8 = 0x27 \<and> data ! 9 = 0x10 \<longrightarrow> be16 data 8 = 10000)"
proof -
  have "parse_opple_data data source_uuid = Inr (Dict (auxiliary_dict data))"
    using assms by (rule parse_command_11)
  moreover have "data ! 8 = 0x27 \<and> data ! 9 = 0x10 \<longrightarrow> be16 data 8 = 10000"
    by (simp add: be16_def)
  ultimately show ?thesis
    using be16_range [of data 8] unfolding auxiliary_dict_def by blast
qed

theorem parse_opple_data_auxiliary_sample_witness:
  "parse_opple_data example_frame_11 OPPLE_CHARACTERISTIC_UUID_COMMAND_TX =
     Inr (Dict
       [(''packet_type'', PStr ''11_byte_status_or_battery''),
        (''raw_hex'', PStr ''80000b0000000000271001''),
        (''RawBattery_mV'', PInt 10000)])"
proof -
  have len: "length example_frame_11 = 11"
    by (simp add: example_frame_11_def)
  have hx: "hex example_frame_11 = ''80000b0000000000271001''"
    by code_simp
  have bytes: "example_frame_11 ! 8 = 0x27 \<and> example_frame_11 ! 9 = 0x10"
    by (simp add: example_frame_11_def)
  show ?thesis
    using parse_opple_data_auxiliary_sample [OF refl len] bytes by (simp add: hx)
qed

text \<open>
  C10. For a command-channel frame of exactly 20 bytes the three slices 14:16, 16:18 and
  18:20 hold two bytes each, the \<^verbatim>\<open>try\<close> block of the parser raises nothing, and the
  parser returns the measurement dictionary, never a message string; likewise for a
  frame of exactly 11 bytes, its slice 8:10 and the battery dictionary.
\<close>

theorem parse_opple_data_no_decode_failure:
  assumes "lower source_uuid = lower OPPLE_CHARACTERISTIC_UUID_COMMAND_TX"
  shows "(length data = 20 \<longrightarrow>
            length (py_slice data 14 16) = 2 \<and> length (py_slice data 16 18) = 2
            \<and> length (py_slice data 18 20) = 2
            \<and> (\<exists>d. parse_20_byte data parsed = Inr (Dict d))
            \<and> (\<exists>d. parse_opple_data data source_uuid = Inr (Dict d)
                   \<and> dict_get d ''packet_type'' = PStr ''20_byte_measurement_or_status'')
            \<and> (\<forall>s. parse_opple_data data source_uuid \<noteq> Inr (Str s)))
       \<and> (length data = 11 \<longrightarrow>
            length (py_slice data 8 10) = 2
            \<and> (\<exists>d. parse_11_byte data parsed = Inr (Dict d))
            \<and> (\<exists>d. parse_opple_data data source_uuid = Inr (Dict d)
                   \<and> dict_get d ''packet_type'' = PStr ''11_byte_status_or_battery'')
            \<and> (\<forall>s. parse_opple_data data source_uuid \<noteq> Inr (Str s)))"
proof (intro conjI impI)
  assume len: "length data = 20"
  show "length (py_slice data 14 16) = 2" "length (py_slice data 16 18) = 2"
    "length (py_slice data 18 20) = 2"
    using len by (simp_all add: py_slice_def)
  show "\<exists>d. parse_20_byte data parsed = Inr (Dict d)"
    using parse_20_byte_ok [OF len] by blast
  show "\<exists>d. parse_opple_data data source_uuid = Inr (Dict d)
      \<and> dict_get d ''packet_type'' = PStr ''20_byte_measurement_or_status''"
    using parse_command_20 [OF assms len] by (simp add: primary_dict_def dict_get_def)
  show "\<forall>s. parse_opple_data data source_uuid \<noteq> Inr (Str s)"
    using parse_command_20 [OF assms len] by simp
next
  assume len: "length data = 11"
  show "length (py_slice data 8 10) = 2"
    using len by (simp add: py_slice_def)
  show "\<exists>d. parse_11_byte data parsed = Inr (Dict d)"
    using parse_11_byte_ok [OF len] by blast
  show "\<exists>d. parse_opple_data data source_uuid = Inr (Dict d)
      \<and> dict_get d ''packet_type'' = PStr ''11_byte_status_or_battery''"
    using parse_command_11 [OF assms len] by (simp add: auxiliary_dict_def dict_get_def)
  show "\<forall>s. parse_opple_data data source_uuid \<noteq> Inr (Str s)"
    using parse_command_11 [OF assms len] by simp
qed

theorem parse_opple_data_no_decode_failure_witness:
  "(\<exists>d. parse_opple_data example_dark_20 OPPLE_CHARACTERISTIC_UUID_COMMAND_TX = Inr (Dict d)
        \<and> dict_get d ''packet_type'' = PStr ''20_byte_measurement_or_status'')
   \<and> length (py_slice example_dark_20 18 20) = 2
   \<and> (\<exists>d. parse_opple_data example_frame_11 OPPLE_CHARACTERISTIC_UUID_COMMAND_TX = Inr (Dict d)
        \<and> dict_get d ''packet_type'' = PStr ''11_byte_status_or_battery'')
   \<and> length (py_slice example_frame_11 8 10) = 2"
proof -
  have len20: "length example_dark_20 = 20"
    by (simp add: example_dark_20_def)
  have len11: "length example_frame_11 = 11"
    by (simp add: example_frame_11_def)
  show ?thesis
    using parse_opple_data_no_decode_failure [OF refl, of example_dark_20 "[]"]
      parse_opple_data_no_decode_failure [OF refl, of example_frame_11 "[]"] len20 len11
    by simp
qed


section \<open>Lengths and readings of the example frames\<close>

lemma example_lengths:
  "length example_frame_20 = 20" "length example_dark_20 = 20" "length example_frame_11 = 11"
  by (simp_all add: example_frame_20_def example_dark_20_def example_frame_11_def)

lemma example_readings:
  "le16 example_frame_20 14 = 2816" "le16 example_frame_20 16 = 4274"
  "le16 example_frame_20 18 = 5762"
  "le16 example_dark_20 14 = 0" "le16 example_dark_20 16 = 0" "le16 example_dark_20 18 = 0"
  "be16 example_frame_11 8 = 10000"
  by (simp_all add: example_frame_20_def example_dark_20_def example_frame_11_def
      le16_def be16_def)


section \<open>The parser on every other frame\<close>

lemma parse_command_other:
  assumes "lower source_uuid = lower OPPLE_CHARACTERISTIC_UUID_COMMAND_TX"
    and "length data \<noteq> 20" and "length data \<noteq> 11"
  shows "parse_opple_data data source_uuid =
     Inr (Dict [(''packet_type'',
                   PStr (''UNKNOWN_LEN_FROM_COMMAND_CHAR ('' @ str_nat (length data) @ ''B)'')),
                (''raw_hex'', PStr (hex data))])"
  using assms by (simp add: parse_opple_data_def)

lemma parse_data_rx:
  assumes "lower source_uuid \<noteq> lower OPPLE_CHARACTERISTIC_UUID_COMMAND_TX"
    and "lower source_uuid = lower OPPLE_CHARACTERISTIC_UUID_DATA_RX"
  shows "parse_opple_data data source_uuid =
     Inr (Dict [(''packet_type'', PStr ''MEASUREMENT_DATA_CANDIDATE_FROM_RX_CHAR''),
                (''raw_hex'', PStr (hex data)),
                (''data_length'', PInt (int (length data)))])"
  using assms by (simp add: parse_opple_data_def)

lemma parse_unhandled:
  assumes "lower source_uuid \<noteq> lower OPPLE_CHARACTERISTIC_UUID_COMMAND_TX"
    and "lower source_uuid \<noteq> lower OPPLE_CHARACTERISTIC_UUID_DATA_RX"
  shows "parse_opple_data data source_uuid =
     Inr (Str (''INFO: Data from unhandled characteristic '' @ source_uuid
               @ '' (Length '' @ str_nat (length data) @ ''): '' @ hex data))"
  using assms by (simp add: parse_opple_data_def)

lemma light_frame_iff:
  "light_frame (t, u, d) \<longleftrightarrow>
     lower u = lower OPPLE_CHARACTERISTIC_UUID_COMMAND_TX \<and> length d = 20
     \<and> \<not> (le16 d 14 = 0 \<and> le16 d 16 = 0 \<and> le16 d 18 = 0)"
proof (cases "lower u = lower OPPLE_CHARACTERISTIC_UUID_COMMAND_TX")
  case tx: True
  consider "length d = 20" | "length d = 11" | "length d \<noteq> 20" "length d \<noteq> 11" by blast
  then show ?thesis
  proof cases
    case 1
    then show ?thesis
      using tx
      by (simp add: light_frame_def frame_state_def parse_command_20 [OF tx 1]
          primary_dict_def dict_get_def)
  next
    case 2
    then show ?thesis
      by (simp add: light_frame_def frame_state_def parse_command_11 [OF tx 2]
          auxiliary_dict_def dict_get_def)
  next
    case 3
    then show ?thesis
      by (simp add: light_frame_def frame_state_def parse_command_other [OF tx 3]
          dict_get_def)
  qed
next
  case ntx: False
  show ?thesis
  proof (cases "lower u = lower OPPLE_CHARACTERISTIC_UUID_DATA_RX")
    case True
    then show ?thesis
      using ntx by (simp add: light_frame_def frame_state_def parse_data_rx dict_get_def)
  next
    case False
    then show ?thesis
      using ntx by (simp add: light_frame_def frame_state_def parse_unhandled)
  qed
qed

lemma dark_frame_iff:
  "dark_frame (t, u, d) \<longleftrightarrow>
     lower u = lower OPPLE_CHARACTERISTIC_UUID_COMMAND_TX \<and> length d = 20
     \<and> le16 d 14 = 0 \<and> le16 d 16 = 0 \<and> le16 d 18 = 0"
proof (cases "lower u = lower OPPLE_CHARACTERISTIC_UUID_COMMAND_TX")
  case tx: True
  consider "length d = 20" | "length d = 11" | "length d \<noteq> 20" "length d \<noteq> 11" by blast
  then show ?thesis
  proof cases
    case 1
    then show ?thesis
      using tx
      by (simp add: dark_frame_def frame_state_def parse_command_20 [OF tx 1]
          primary_dict_def dict_get_def)
  next
    case 2
    then show ?thesis
      by (simp add: dark_frame_def frame_state_def parse_command_11 [OF tx 2]
          auxiliary_dict_def dict_get_def)
  next
    case 3
    then show ?thesis
      by (simp add: dark_frame_def frame_state_def parse_command_other [OF tx 3]
          dict_get_def)
  qed
next
  case ntx: False
  show ?thesis
  proof (cases "lower u = lower OPPLE_CHARACTERISTIC_UUID_DATA_RX")
    case True
    then show ?thesis
      using ntx by (simp add: dark_frame_def frame_state_def parse_data_rx dict_get_def)
  next
    case False
    then show ?thesis
      using ntx by (simp add: dark_frame_def frame_state_def parse_unhandled)
  qed
qed

section \<open>One step of each handler\<close>

lemma notification_handler_step:
  "notification_handler t u d cm =
     Inr (if light_frame (t, u, d) then cm @ [stored_record t d] else cm)"
proof (cases "lower u = lower OPPLE_CHARACTERISTIC_UUID_COMMAND_TX")
  case tx: True
  consider "length d = 20" | "length d = 11" | "length d \<noteq> 20" "length d \<noteq> 11" by blast
  then show ?thesis
  proof cases
    case 1
    show ?thesis
      unfolding light_frame_iff notification_handler_def parse_command_20 [OF tx 1]
      using tx 1
      by (simp add: bind_exn_def primary_dict_def dict_get_def stored_record_def)
  next
    case 2
    show ?thesis
      unfolding light_frame_iff notification_handler_def parse_command_11 [OF tx 2]
      using tx 2
      by (simp add: bind_exn_def auxiliary_dict_def dict_get_def)
  next
    case 3
    show ?thesis
      unfolding light_frame_iff notification_handler_def parse_command_other [OF tx 3]
      using tx 3
      by (simp add: bind_exn_def dict_get_def)
  qed
next
  case ntx: False
  show ?thesis
  proof (cases "lower u = lower OPPLE_CHARACTERISTIC_UUID_DATA_RX")
    case True
    show ?thesis
      unfolding light_frame_iff notification_handler_def parse_data_rx [OF ntx True]
      using ntx by (simp add: bind_exn_def dict_get_def)
  next
    case False
    show ?thesis
      unfolding light_frame_iff notification_handler_def parse_unhandled [OF ntx False]
      using ntx by (simp add: bind_exn_def startswith_def)
  qed
qed

lemma notification_handler_1_step:
  "notification_handler_1 t u d cm =
     Inr (if light_frame (t, u, d) then cm @ [measurement_entry t d]
          else if lower u = lower OPPLE_CHARACTERISTIC_UUID_COMMAND_TX \<and> length d = 11
          then attach_battery d cm
          else cm)"
proof (cases "lower u = lower OPPLE_CHARACTERISTIC_UUID_COMMAND_TX")
  case tx: True
  consider "length d = 20" | "length d = 11" | "length d \<noteq> 20" "length d \<noteq> 11" by blast
  then show ?thesis
  proof cases
    case 1
    show ?thesis
      unfolding light_frame_iff notification_handler_1_def parse_command_20 [OF tx 1]
      using tx 1
      by (simp add: bind_exn_def primary_dict_def dict_get_def measurement_entry_def)
  next
    case 2
    show ?thesis
      unfolding light_frame_iff notification_handler_1_def parse_command_11 [OF tx 2]
      using tx 2
      by (simp add: bind_exn_def auxiliary_dict_def dict_get_def attach_battery_def)
  next
    case 3
    show ?thesis
      unfolding light_frame_iff notification_handler_1_def parse_command_other [OF tx 3]
      using tx 3
      by (simp add: bind_exn_def dict_get_def)
  qed
next
  case ntx: False
  show ?thesis
  proof (cases "lower u = lower OPPLE_CHARACTERISTIC_UUID_DATA_RX")
    case True
    show ?thesis
      unfolding light_frame_iff notification_handler_1_def parse_data_rx [OF ntx True]
      using ntx by (simp add: bind_exn_def dict_get_def)
  next
    case False
    show ?thesis
      unfolding light_frame_iff notification_handler_1_def parse_unhandled [OF ntx False]
      using ntx by (simp add: bind_exn_def startswith_def)
  qed
qed


section \<open>What the export writes\<close>

lemma save_measurements_to_csv_returns:
  "\<exists>written. save_measurements_to_csv filename data_list fsys = Inr written"
  by (simp add: save_measurements_to_csv_def open_w_def bind_exn_def Let_def)

lemma files_write_row:
  "map_of (files (write_row filename row fsys)) filename =
     Some ((case map_of (files fsys) filename of None \<Rightarrow> [] | Some rows \<Rightarrow> rows) @ [row])"
  by (simp add: write_row_def update_conv')

lemma files_fold_write_row:
  assumes "map_of (files fsys) filename = Some rows"
  shows "map_of (files (fold (\<lambda>row. write_row filename (g row)) data_list fsys)) filename =
           Some (rows @ map g data_list)"
  using assms
proof (induction data_list arbitrary: fsys rows)
  case Nil
  then show ?case by simp
next
  case (Cons r data_list)
  have "map_of (files (write_row filename (g r) fsys)) filename = Some (rows @ [g r])"
    by (simp add: files_write_row Cons.prems)
  from Cons.IH [OF this] show ?case by simp
qed

lemma save_measurements_to_csv_written:
  assumes "data_list \<noteq> []" and "filename \<notin> set (unwritable fsys)"
  shows "\<exists>written. save_measurements_to_csv filename data_list fsys = Inr written
           \<and> map_of (files written) filename = Some (fieldnames # map clean_row data_list)"
proof -
  let ?opened = "fsys\<lparr>files := AList.update filename [] (files fsys)\<rparr>"
  have "map_of (files (write_row filename fieldnames ?opened)) filename = Some ([] @ [fieldnames])"
    unfolding files_write_row by (simp add: update_conv')
  then have "map_of (files (write_row filename fieldnames ?opened)) filename = Some [fieldnames]"
    by simp
  from files_fold_write_row [OF this, of clean_row data_list] show ?thesis
    using assms by (simp add: save_measurements_to_csv_def open_w_def bind_exn_def Let_def)
qed

lemma save_measurements_to_csv_rows:
  "\<exists>written. save_measurements_to_csv filename data_list fsys = Inr written
     \<and> (written = fsys
          \<or> map_of (files written) filename = Some (fieldnames # map clean_row data_list))"
proof (cases "data_list \<noteq> [] \<and> filename \<notin> set (unwritable fsys)")
  case True
  then show ?thesis
    using save_measurements_to_csv_written [of data_list filename fsys] by blast
next
  case False
  then have "save_measurements_to_csv filename data_list fsys = Inr fsys"
    by (auto simp: save_measurements_to_csv_def open_w_def bind_exn_def)
  then show ?thesis by simp
qed


section \<open>Delivery of a sequence of frames\<close>

lemma deliver_append: "deliver h (xs @ ys) cm = deliver h ys (deliver h xs cm)"
  by (induction h xs cm rule: deliver.induct) simp_all

lemma dict_get_update: "dict_get (AList.update k v r) k' = (if k' = k then v else dict_get r k')"
  by (simp add: dict_get_def update_conv')

lemma primary_fields_update_battery:
  "primary_fields (AList.update ''RawBattery_mV'' v r) = primary_fields r"
  by (simp add: primary_fields_def dict_get_update)

lemma primary_fields_attach_battery:
  "map primary_fields (attach_battery d cm) = map primary_fields cm"
proof (cases "cm \<noteq> [] \<and> dict_get (last cm) ''RawBattery_mV'' = PNone")
  case True
  then have "cm = butlast cm @ [last cm]" by simp
  then have "map primary_fields cm = map primary_fields (butlast cm) @ [primary_fields (last cm)]"
    by (metis list.simps(8,9) map_append)
  with True show ?thesis
    by (simp add: attach_battery_def primary_fields_update_battery)
next
  case False
  then show ?thesis by (auto simp: attach_battery_def)
qed

lemma primary_fields_stored_record:
  "primary_fields (stored_record t d) = sample_fields (t, u, d)"
  by (simp add: primary_fields_def stored_record_def primary_dict_def sample_fields_def
      dict_get_def)

lemma primary_fields_measurement_entry:
  "primary_fields (measurement_entry t d) = sample_fields (t, u, d)"
  by (simp add: primary_fields_def measurement_entry_def sample_fields_def dict_get_def)

lemma deliver_notification_handler_Cons:
  "deliver notification_handler ((t, u, d) # rest) cm =
     deliver notification_handler rest
       (if light_frame (t, u, d) then cm @ [stored_record t d] else cm)"
  by (simp add: notification_handler_step)

lemma deliver_notification_handler_1_Cons:
  "deliver notification_handler_1 ((t, u, d) # rest) cm =
     deliver notification_handler_1 rest
       (if light_frame (t, u, d) then cm @ [measurement_entry t d]
        else if lower u = lower OPPLE_CHARACTERISTIC_UUID_COMMAND_TX \<and> length d = 11
        then attach_battery d cm
        else cm)"
  by (simp add: notification_handler_1_step)

lemma deliver_notification_handler:
  "map primary_fields (deliver notification_handler frames cm) =
     map primary_fields cm @ map sample_fields (filter light_frame frames)"
proof (induction frames arbitrary: cm)
  case Nil
  show ?case by simp
next
  case (Cons f frames)
  obtain t u d where f: "f = (t, u, d)" by (cases f)
  show ?case
    unfolding f deliver_notification_handler_Cons
    using primary_fields_stored_record [of t d u] by (simp add: Cons.IH)
qed

lemma deliver_notification_handler_1:
  "map primary_fields (deliver notification_handler_1 frames cm) =
     map primary_fields cm @ map sample_fields (filter light_frame frames)"
proof (induction frames arbitrary: cm)
  case Nil
  show ?case by simp
next
  case (Cons f frames)
  obtain t u d where f: "f = (t, u, d)" by (cases f)
  show ?case
    unfolding f deliver_notification_handler_1_Cons
    using primary_fields_measurement_entry [of t d u]
    by (simp add: Cons.IH primary_fields_attach_battery)
qed

lemma light_sample_not_dark:
  assumes "light_frame f" and "primary_fields r = sample_fields f"
  shows "\<not> dark_values r"
proof -
  obtain t u d where f: "f = (t, u, d)" by (cases f)
  from assms(1) have "\<not> (le16 d 14 = 0 \<and> le16 d 16 = 0 \<and> le16 d 18 = 0)"
    unfolding f light_frame_iff by blast
  moreover from assms(2) have "dict_get r ''RawVal_1'' = PInt (le16 d 14)"
    "dict_get r ''RawVal_2'' = PInt (le16 d 16)" "dict_get r ''RawVal_3'' = PInt (le16 d 18)"
    unfolding f by (simp_all add: primary_fields_def sample_fields_def)
  ultimately show ?thesis by (auto simp: dark_values_def)
qed

lemma records_of_light_frames_not_dark:
  assumes "map primary_fields cm = map sample_fields (filter light_frame frames)"
  shows "list_all (\<lambda>r. \<not> dark_values r) cm"
proof -
  have "\<not> dark_values r" if "r \<in> set cm" for r
  proof -
    from that have "primary_fields r \<in> set (map sample_fields (filter light_frame frames))"
      unfolding assms [symmetric] by simp
    then obtain f where "light_frame f" "primary_fields r = sample_fields f" by auto
    then show ?thesis by (rule light_sample_not_dark)
  qed
  then show ?thesis by (simp add: list_all_iff)
qed

text \<open>
  C5. A frame whose state is DARK leaves the buffer of either handler as it was; after
  any sequence of frames, started on the empty buffer, the buffer holds exactly one
  record for each LIGHT_DETECTED frame, in order of arrival, with that frame's time
  stamp, hex dump and three readings, so no record in it has three zero readings. The
  export of that buffer either writes nothing or writes the header row and the rows of
  exactly these records.
\<close>

theorem dark_samples_never_stored:
  "(dark_frame (t, u, d) \<longrightarrow>
      notification_handler t u d cm = Inr cm \<and> notification_handler_1 t u d cm = Inr cm)
   \<and> map primary_fields (deliver notification_handler frames []) =
       map sample_fields (filter light_frame frames)
   \<and> map primary_fields (deliver notification_handler_1 frames []) =
       map sample_fields (filter light_frame frames)
   \<and> list_all (\<lambda>r. \<not> dark_values r) (deliver notification_handler frames [])
   \<and> list_all (\<lambda>r. \<not> dark_values r) (deliver notification_handler_1 frames [])
   \<and> (\<exists>written.
         save_measurements_to_csv filename (deliver notification_handler frames []) fsys =
           Inr written
         \<and> (written = fsys
              \<or> map_of (files written) filename =
                  Some (fieldnames # map clean_row (deliver notification_handler frames []))))
   \<and> (\<exists>written.
         save_measurements_to_csv filename (deliver notification_handler_1 frames []) fsys =
           Inr written
         \<and> (written = fsys
              \<or> map_of (files written) filename =
                  Some (fieldnames # map clean_row (deliver notification_handler_1 frames []))))"
proof (intro conjI impI)
  assume dark: "dark_frame (t, u, d)"
  then have "\<not> light_frame (t, u, d)" "length d \<noteq> 11"
    unfolding dark_frame_iff light_frame_iff by simp_all
  then show "notification_handler t u d cm = Inr cm" "notification_handler_1 t u d cm = Inr cm"
    by (simp_all add: notification_handler_step notification_handler_1_step)
next
  show a: "map primary_fields (deliver notification_handler frames []) =
      map sample_fields (filter light_frame frames)"
    by (simp add: deliver_notification_handler)
  show b: "map primary_fields (deliver notification_handler_1 frames []) =
      map sample_fields (filter light_frame frames)"
    by (simp add: deliver_notification_handler_1)
  show "list_all (\<lambda>r. \<not> dark_values r) (deliver notification_handler frames [])"
    using a by (rule records_of_light_frames_not_dark)
  show "list_all (\<lambda>r. \<not> dark_values r) (deliver notification_handler_1 frames [])"
    using b by (rule records_of_light_frames_not_dark)
  show "\<exists>written.
      save_measurements_to_csv filename (deliver notification_handler frames []) fsys =
        Inr written
      \<and> (written = fsys
           \<or> map_of (files written) filename =
               Some (fieldnames # map clean_row (deliver notification_handler frames [])))"
    by (rule save_measurements_to_csv_rows)
  show "\<exists>written.
      save_measurements_to_csv filename (deliver notification_handler_1 frames []) fsys =
        Inr written
      \<and> (written = fsys
           \<or> map_of (files written) filename =
               Some (fieldnames # map clean_row (deliver notification_handler_1 frames [])))"
    by (rule save_measurements_to_csv_rows)
qed

theorem dark_samples_never_stored_witness:
  "dark_frame (''10:00:01.000'', OPPLE_CHARACTERISTIC_UUID_COMMAND_TX, example_dark_20)
   \<and> notification_handler_1 ''10:00:01.000'' OPPLE_CHARACTERISTIC_UUID_COMMAND_TX
        example_dark_20 [measurement_entry ''10:00:00.000'' example_frame_20] =
      Inr [measurement_entry ''10:00:00.000'' example_frame_20]
   \<and> map primary_fields (deliver notification_handler_1 example_scenario []) =
       [[PStr ''10:00:00.000'', PStr (hex example_frame_20), PInt 2816, PInt 4274, PInt 5762],
        [PStr ''10:00:02.000'', PStr (hex example_frame_20), PInt 2816, PInt 4274, PInt 5762]]"
proof -
  have dark: "dark_frame (''10:00:01.000'', OPPLE_CHARACTERISTIC_UUID_COMMAND_TX,
      example_dark_20)"
    by (simp add: dark_frame_iff example_lengths example_readings)
  have light: "filter light_frame example_scenario =
      [(''10:00:00.000'', OPPLE_CHARACTERISTIC_UUID_COMMAND_TX, example_frame_20),
       (''10:00:02.000'', OPPLE_CHARACTERISTIC_UUID_COMMAND_TX, example_frame_20)]"
    by (simp add: example_scenario_def light_frame_iff example_lengths example_readings)
  show ?thesis
    using dark_samples_never_stored [of "''10:00:01.000''"
        OPPLE_CHARACTERISTIC_UUID_COMMAND_TX example_dark_20
        "[measurement_entry ''10:00:00.000'' example_frame_20]" example_scenario]
      dark
    by (simp add: light sample_fields_def example_readings)
qed


section \<open>Battery frames\<close>

lemma attach_battery_unchanged:
  assumes "cm = [] \<or> dict_get (last cm) ''RawBattery_mV'' \<noteq> PNone"
  shows "attach_battery d cm = cm"
  using assms by (auto simp: attach_battery_def)

lemma attach_battery_sets:
  assumes "cm \<noteq> []" and "dict_get (last cm) ''RawBattery_mV'' = PNone"
  shows "attach_battery d cm =
           butlast cm @ [AList.update ''RawBattery_mV'' (PInt (be16 d 8)) (last cm)]"
  using assms by (simp add: attach_battery_def)

lemma deliver_without_light:
  assumes "cm = [] \<or> dict_get (last cm) ''RawBattery_mV'' \<noteq> PNone"
    and "list_all (\<lambda>f. \<not> light_frame f) later"
  shows "deliver notification_handler_1 later cm = cm"
  using assms(2)
proof (induction later)
  case Nil
  show ?case by simp
next
  case (Cons f later)
  obtain t u d where f: "f = (t, u, d)" by (cases f)
  from Cons.prems have "\<not> light_frame (t, u, d)" "list_all (\<lambda>f. \<not> light_frame f) later"
    unfolding f by simp_all
  then show ?case
    unfolding f deliver_notification_handler_1_Cons
    using Cons.IH attach_battery_unchanged [OF assms(1)] by simp
qed

text \<open>
  C4. An 11-byte frame on the command channel changes the buffer of
  \<^verbatim>\<open>OPPLE_read_1.py\<close> exactly as follows: when the buffer is not empty and the
  RawBattery_mV of its last record is null, that field is set to the frame's reading;
  otherwise the buffer is unchanged. When the field is set, the other records and the
  other fields of the last record stay as they were, and every later battery frame, and
  every later sequence of frames with no LIGHT_DETECTED measurement in it, leaves the
  buffer unchanged.
\<close>

theorem auxiliary_sample_first_write_wins:
  assumes "lower u = lower OPPLE_CHARACTERISTIC_UUID_COMMAND_TX" and "length d = 11"
  shows "notification_handler_1 t u d cm =
           Inr (if cm \<noteq> [] \<and> dict_get (last cm) ''RawBattery_mV'' = PNone
                then butlast cm @
                     [AList.update ''RawBattery_mV'' (PInt (be16 d 8)) (last cm)]
                else cm)
         \<and> (cm \<noteq> [] \<and> dict_get (last cm) ''RawBattery_mV'' = PNone \<longrightarrow>
              (\<exists>cm1. notification_handler_1 t u d cm = Inr cm1
                 \<and> length cm1 = length cm \<and> butlast cm1 = butlast cm
                 \<and> dict_get (last cm1) ''RawBattery_mV'' = PInt (be16 d 8)
                 \<and> (\<forall>k. k \<noteq> ''RawBattery_mV'' \<longrightarrow>
                        dict_get (last cm1) k = dict_get (last cm) k)
                 \<and> (lower u' = lower OPPLE_CHARACTERISTIC_UUID_COMMAND_TX \<and> length d' = 11
                      \<longrightarrow> notification_handler_1 t' u' d' cm1 = Inr cm1)
                 \<and> (list_all (\<lambda>f. \<not> light_frame f) later \<longrightarrow>
                      deliver notification_handler_1 later cm1 = cm1)))"
proof (intro conjI impI)
  have not_light: "\<not> light_frame (t, u, d)"
    using assms by (simp add: light_frame_iff)
  have step: "notification_handler_1 t u d cm = Inr (attach_battery d cm)"
    using assms not_light by (simp add: notification_handler_1_step)
  show "notification_handler_1 t u d cm =
      Inr (if cm \<noteq> [] \<and> dict_get (last cm) ''RawBattery_mV'' = PNone
           then butlast cm @ [AList.update ''RawBattery_mV'' (PInt (be16 d 8)) (last cm)]
           else cm)"
    unfolding step attach_battery_def ..
  assume null: "cm \<noteq> [] \<and> dict_get (last cm) ''RawBattery_mV'' = PNone"
  define cm1 where "cm1 = butlast cm @ [AList.update ''RawBattery_mV'' (PInt (be16 d 8)) (last cm)]"
  have "attach_battery d cm = cm1"
    using null by (simp add: attach_battery_sets cm1_def)
  then have first: "notification_handler_1 t u d cm = Inr cm1"
    using step by simp
  have last1: "last cm1 = AList.update ''RawBattery_mV'' (PInt (be16 d 8)) (last cm)"
    by (simp add: cm1_def)
  have set1: "dict_get (last cm1) ''RawBattery_mV'' = PInt (be16 d 8)"
    unfolding last1 by (simp add: dict_get_update)
  then have filled: "cm1 = [] \<or> dict_get (last cm1) ''RawBattery_mV'' \<noteq> PNone"
    by simp
  have second: "notification_handler_1 t' u' d' cm1 = Inr cm1"
    if "lower u' = lower OPPLE_CHARACTERISTIC_UUID_COMMAND_TX \<and> length d' = 11"
  proof -
    from that have "\<not> light_frame (t', u', d')" by (simp add: light_frame_iff)
    with that show ?thesis
      by (simp add: notification_handler_1_step attach_battery_unchanged [OF filled])
  qed
  have "length cm1 = length cm" "butlast cm1 = butlast cm"
    using null by (simp_all add: cm1_def)
  moreover have "\<forall>k. k \<noteq> ''RawBattery_mV'' \<longrightarrow> dict_get (last cm1) k = dict_get (last cm) k"
    unfolding last1 by (simp add: dict_get_update)
  moreover have "list_all (\<lambda>f. \<not> light_frame f) later \<longrightarrow>
      deliver notification_handler_1 later cm1 = cm1"
    using deliver_without_light [OF filled] by blast
  ultimately show "\<exists>cm1. notification_handler_1 t u d cm = Inr cm1
      \<and> length cm1 = length cm \<and> butlast cm1 = butlast cm
      \<and> dict_get (last cm1) ''RawBattery_mV'' = PInt (be16 d 8)
      \<and> (\<forall>k. k \<noteq> ''RawBattery_mV'' \<longrightarrow> dict_get (last cm1) k = dict_get (last cm) k)
      \<and> (lower u' = lower OPPLE_CHARACTERISTIC_UUID_COMMAND_TX \<and> length d' = 11
           \<longrightarrow> notification_handler_1 t' u' d' cm1 = Inr cm1)
      \<and> (list_all (\<lambda>f. \<not> light_frame f) later \<longrightarrow>
           deliver notification_handler_1 later cm1 = cm1)"
    using first set1 second by blast
qed


theorem auxiliary_sample_first_write_wins_witness:
  "notification_handler_1 ''10:00:00.100'' OPPLE_CHARACTERISTIC_UUID_COMMAND_TX
     example_frame_11 [measurement_entry ''10:00:00.000'' example_frame_20] =
     Inr [AList.update ''RawBattery_mV'' (PInt 10000)
            (measurement_entry ''10:00:00.000'' example_frame_20)]
   \<and> notification_handler_1 ''10:00:00.200'' OPPLE_CHARACTERISTIC_UUID_COMMAND_TX
       example_second_11
       [AList.update ''RawBattery_mV'' (PInt 10000)
          (measurement_entry ''10:00:00.000'' example_frame_20)] =
     Inr [AList.update ''RawBattery_mV'' (PInt 10000)
            (measurement_entry ''10:00:00.000'' example_frame_20)]"
proof -
  have null: "dict_get (measurement_entry ''10:00:00.000'' example_frame_20)
      ''RawBattery_mV'' = PNone"
    by (simp add: measurement_entry_def dict_get_def)
  have len: "length example_second_11 = 11"
    by (simp add: example_second_11_def)
  show ?thesis
    using auxiliary_sample_first_write_wins
        [where u = OPPLE_CHARACTERISTIC_UUID_COMMAND_TX and d = example_frame_11
           and cm = "[measurement_entry ''10:00:00.000'' example_frame_20]"
           and t = "''10:00:00.100''" and t' = "''10:00:00.200''"
           and u' = OPPLE_CHARACTERISTIC_UUID_COMMAND_TX and d' = example_second_11
           and later = "[]"]
      null len
    by (auto simp add: example_readings example_lengths)
qed

section \<open>No exception leaves the parser or a handler\<close>

lemma parse_opple_data_shape:
  "(\<exists>d p. parse_opple_data data source_uuid = Inr (Dict d)
          \<and> map_of d ''packet_type'' = Some (PStr p))
   \<or> (\<exists>s. parse_opple_data data source_uuid = Inr (Str s) \<and> startswith s ''INFO'')"
proof (cases "lower source_uuid = lower OPPLE_CHARACTERISTIC_UUID_COMMAND_TX")
  case tx: True
  consider "length data = 20" | "length data = 11"
    | "length data \<noteq> 20" "length data \<noteq> 11" by blast
  then show ?thesis
  proof cases
    case 1
    show ?thesis
      unfolding parse_command_20 [OF tx 1] by (simp add: primary_dict_def)
  next
    case 2
    show ?thesis
      unfolding parse_command_11 [OF tx 2] by (simp add: auxiliary_dict_def)
  next
    case 3
    show ?thesis
      unfolding parse_command_other [OF tx 3] by simp
  qed
next
  case ntx: False
  show ?thesis
  proof (cases "lower source_uuid = lower OPPLE_CHARACTERISTIC_UUID_DATA_RX")
    case True
    show ?thesis
      unfolding parse_data_rx [OF ntx True] by simp
  next
    case False
    show ?thesis
      unfolding parse_unhandled [OF ntx False] by (simp add: startswith_def)
  qed
qed

text \<open>
  C9. For every payload and every characteristic UUID the parser returns a value and
  raises nothing: a dictionary that names its packet type, or a message string that
  starts with ERROR or INFO. A command-channel frame whose length is neither 20 nor 11
  gets the packet type UNKNOWN_LEN_FROM_COMMAND_CHAR with its length, and a frame from an
  unhandled characteristic an INFO string. Neither handler raises on any frame, so a
  frame that arrives after any earlier frames is handled on the buffer they left.
\<close>

theorem parse_opple_data_never_raises:
  "(\<exists>r. parse_opple_data data source_uuid = Inr r)
   \<and> ((\<exists>d p. parse_opple_data data source_uuid = Inr (Dict d)
            \<and> map_of d ''packet_type'' = Some (PStr p))
       \<or> (\<exists>s. parse_opple_data data source_uuid = Inr (Str s)
            \<and> (startswith s ''ERROR'' \<or> startswith s ''INFO'')))
   \<and> (lower source_uuid = lower OPPLE_CHARACTERISTIC_UUID_COMMAND_TX
        \<and> length data \<noteq> 20 \<and> length data \<noteq> 11 \<longrightarrow>
        parse_opple_data data source_uuid =
          Inr (Dict [(''packet_type'',
                        PStr (''UNKNOWN_LEN_FROM_COMMAND_CHAR ('' @ str_nat (length data)
                              @ ''B)'')),
                     (''raw_hex'', PStr (hex data))]))
   \<and> (lower source_uuid \<noteq> lower OPPLE_CHARACTERISTIC_UUID_COMMAND_TX
        \<and> lower source_uuid \<noteq> lower OPPLE_CHARACTERISTIC_UUID_DATA_RX \<longrightarrow>
        parse_opple_data data source_uuid =
          Inr (Str (''INFO: Data from unhandled characteristic '' @ source_uuid
                    @ '' (Length '' @ str_nat (length data) @ ''): '' @ hex data)))
   \<and> (\<exists>cm'. notification_handler t source_uuid data cm = Inr cm')
   \<and> (\<exists>cm'. notification_handler_1 t source_uuid data cm = Inr cm')
   \<and> notification_handler t source_uuid data (deliver notification_handler earlier cm) =
       Inr (deliver notification_handler (earlier @ [(t, source_uuid, data)]) cm)
   \<and> notification_handler_1 t source_uuid data (deliver notification_handler_1 earlier cm) =
       Inr (deliver notification_handler_1 (earlier @ [(t, source_uuid, data)]) cm)"
proof (intro conjI impI)
  show "\<exists>r. parse_opple_data data source_uuid = Inr r"
    using parse_opple_data_shape [of data source_uuid] by blast
  show "(\<exists>d p. parse_opple_data data source_uuid = Inr (Dict d)
            \<and> map_of d ''packet_type'' = Some (PStr p))
       \<or> (\<exists>s. parse_opple_data data source_uuid = Inr (Str s)
            \<and> (startswith s ''ERROR'' \<or> startswith s ''INFO''))"
    using parse_opple_data_shape [of data source_uuid] by blast
  show "\<exists>cm'. notification_handler t source_uuid data cm = Inr cm'"
    unfolding notification_handler_step by blast
  show "\<exists>cm'. notification_handler_1 t source_uuid data cm = Inr cm'"
    unfolding notification_handler_1_step by blast
  show "notification_handler t source_uuid data (deliver notification_handler earlier cm) =
      Inr (deliver notification_handler (earlier @ [(t, source_uuid, data)]) cm)"
    unfolding deliver_append deliver_notification_handler_Cons
    by (simp add: notification_handler_step)
  show "notification_handler_1 t source_uuid data (deliver notification_handler_1 earlier cm) =
      Inr (deliver notification_handler_1 (earlier @ [(t, source_uuid, data)]) cm)"
    unfolding deliver_append deliver_notification_handler_1_Cons
    by (simp add: notification_handler_1_step)
next
  assume "lower source_uuid = lower OPPLE_CHARACTERISTIC_UUID_COMMAND_TX
      \<and> length data \<noteq> 20 \<and> length data \<noteq> 11"
  then show "parse_opple_data data source_uuid =
      Inr (Dict [(''packet_type'',
                    PStr (''UNKNOWN_LEN_FROM_COMMAND_CHAR ('' @ str_nat (length data)
                          @ ''B)'')),
                 (''raw_hex'', PStr (hex data))])"
    by (simp add: parse_command_other)
next
  assume "lower source_uuid \<noteq> lower OPPLE_CHARACTERISTIC_UUID_COMMAND_TX
      \<and> lower source_uuid \<noteq> lower OPPLE_CHARACTERISTIC_UUID_DATA_RX"
  then show "parse_opple_data data source_uuid =
      Inr (Str (''INFO: Data from unhandled characteristic '' @ source_uuid
                @ '' (Length '' @ str_nat (length data) @ ''): '' @ hex data))"
    by (simp add: parse_unhandled)
qed

theorem parse_opple_data_never_raises_witness:
  "parse_opple_data example_frame_12 OPPLE_CHARACTERISTIC_UUID_COMMAND_TX =
     Inr (Dict [(''packet_type'', PStr ''UNKNOWN_LEN_FROM_COMMAND_CHAR (12B)''),
                (''raw_hex'', PStr ''80000c000000000027100102'')])
   \<and> parse_opple_data example_frame_12 ''0000ffe1-0000-1000-8000-00805f9b34fb'' =
     Inr (Str ''INFO: Data from unhandled characteristic 0000ffe1-0000-1000-8000-00805f9b34fb (Length 12): 80000c000000000027100102'')"
proof -
  have len: "length example_frame_12 = 12"
    by (simp add: example_frame_12_def)
  have shown: "str_nat 12 = ''12''"
    by code_simp
  have hx: "hex example_frame_12 = ''80000c000000000027100102''"
    by code_simp
  have other: "lower ''0000ffe1-0000-1000-8000-00805f9b34fb'' \<noteq>
        lower OPPLE_CHARACTERISTIC_UUID_COMMAND_TX
      \<and> lower ''0000ffe1-0000-1000-8000-00805f9b34fb'' \<noteq>
        lower OPPLE_CHARACTERISTIC_UUID_DATA_RX"
    by code_simp
  show ?thesis
    using parse_opple_data_never_raises [of example_frame_12
        OPPLE_CHARACTERISTIC_UUID_COMMAND_TX]
      parse_opple_data_never_raises [of example_frame_12
        "''0000ffe1-0000-1000-8000-00805f9b34fb''"]
      other
    by (simp add: len shown hx)
qed


section \<open>Export of an empty list\<close>

text \<open>
  C6, as the code has it. \<^verbatim>\<open>save_measurements_to_csv\<close> returns at once on an empty
  list: the file system is left as it was, so no file and no header row is written, and
  nothing is raised. On any list the function raises nothing.
\<close>

theorem save_empty_writes_nothing:
  "save_measurements_to_csv filename [] fsys = Inr fsys
   \<and> (\<exists>written. save_measurements_to_csv filename data_list fsys = Inr written)"
  using save_measurements_to_csv_returns [of filename data_list fsys]
  by (simp add: save_measurements_to_csv_def)

text \<open>
  C6, as the spec words it, fails: on a file system without files, exporting the empty
  list does not leave a file that holds the header row.
\<close>

theorem save_empty_header_counterexample:
  "\<not> (\<exists>written.
        save_measurements_to_csv ''measurements_no_filter.csv'' []
          \<lparr>files = [], unwritable = []\<rparr> = Inr written
        \<and> map_of (files written) ''measurements_no_filter.csv'' = Some [fieldnames])"
  by (simp add: save_measurements_to_csv_def)


section \<open>Division of two integers to a double\<close>

lemma round_half_even_div_close:
  assumes "0 < den"
  shows "\<bar>of_int (round_half_even_div num den) - (of_int num / of_int den :: rat)\<bar> \<le> 1 / 2"
proof -
  define q r where "q = num div den" and "r = num mod den"
  have num: "num = q * den + r" by (simp add: q_def r_def)
  have r: "0 \<le> r" "r < den" using assms by (simp_all add: r_def)
  have den: "(0 :: rat) < of_int den" using assms by simp
  have quot: "(of_int num / of_int den :: rat) = of_int q + of_int r / of_int den"
    using den by (simp add: num field_simps)
  have frac: "(0 :: rat) \<le> of_int r / of_int den" "(of_int r / of_int den :: rat) < 1"
    using r den by simp_all
  consider "2 * r < den" | "den < 2 * r" | "2 * r = den" by linarith
  then show ?thesis
  proof cases
    case 1
    then have "(of_int (2 * r) :: rat) < of_int den" by (simp only: of_int_less_iff)
    then have "(of_int r / of_int den :: rat) < 1 / 2" using den by (simp add: field_simps)
    moreover have "round_half_even_div num den = q"
      using 1 by (simp add: round_half_even_div_def q_def r_def Let_def)
    ultimately show ?thesis using frac by (simp add: quot)
  next
    case 2
    then have "(of_int den :: rat) < of_int (2 * r)" by (simp only: of_int_less_iff)
    then have "(1 / 2 :: rat) < of_int r / of_int den" using den by (simp add: field_simps)
    moreover have "round_half_even_div num den = q + 1"
      using 2 by (simp add: round_half_even_div_def q_def r_def Let_def)
    ultimately show ?thesis using frac by (simp add: quot)
  next
    case 3
    then have "(of_int (2 * r) :: rat) = of_int den" by (simp only: of_int_eq_iff)
    then have half: "(of_int r / of_int den :: rat) = 1 / 2" using den by (simp add: field_simps)
    have "round_half_even_div num den = q \<or> round_half_even_div num den = q + 1"
      using 3 by (simp add: round_half_even_div_def q_def r_def Let_def)
    then show ?thesis by (auto simp: quot half)
  qed
qed

lemma round_half_even_div_zero: "0 < den \<Longrightarrow> round_half_even_div 0 den = 0"
  by (simp add: round_half_even_div_def)

lemma scaled_le_iff:
  assumes "0 < b"
  shows "(if 0 \<le> d then b * 2 ^ nat d \<le> a else b \<le> a * 2 ^ nat (- d))
     \<longleftrightarrow> (of_int b * 2 powi d \<le> (of_int a :: rat))"
proof (cases "0 \<le> d")
  case True
  then have "(2 :: rat) powi d = 2 ^ nat d" by (simp add: power_int_def)
  moreover have "(of_int b * 2 ^ nat d \<le> (of_int a :: rat)) \<longleftrightarrow> b * 2 ^ nat d \<le> a"
    by (metis of_int_le_iff of_int_mult of_int_numeral of_int_power)
  ultimately show ?thesis using True by simp
next
  case False
  then have "(2 :: rat) powi d = inverse (2 ^ nat (- d))"
    by (simp add: power_int_def power_divide inverse_eq_divide)
  moreover have "(of_int b / 2 ^ nat (- d) \<le> (of_int a :: rat)) \<longleftrightarrow> b \<le> a * 2 ^ nat (- d)"
  proof -
    have "(of_int b / 2 ^ nat (- d) \<le> (of_int a :: rat))
        \<longleftrightarrow> (of_int b :: rat) \<le> of_int a * 2 ^ nat (- d)"
      by (simp add: pos_divide_le_eq)
    also have "\<dots> \<longleftrightarrow> b \<le> a * 2 ^ nat (- d)"
      by (metis of_int_le_iff of_int_mult of_int_numeral of_int_power)
    finally show ?thesis .
  qed
  ultimately show ?thesis using False by (simp add: divide_inverse)
qed

lemma floor_log2_quot_lower:
  assumes "0 < a" and "0 < b"
  shows "of_int b * 2 powi (floor_log2_quot a b) \<le> (of_int a :: rat)"
proof -
  define d where "d = bitlen a - bitlen b"
  have unfold: "floor_log2_quot a b =
      (if of_int b * 2 powi d \<le> (of_int a :: rat) then d else d - 1)"
    unfolding scaled_le_iff [OF assms(2), symmetric]
    by (simp add: floor_log2_quot_def d_def Let_def)
  show ?thesis
  proof (cases "of_int b * 2 powi d \<le> (of_int a :: rat)")
    case True
    then show ?thesis by (simp add: unfold)
  next
    case False
    then have fl: "floor_log2_quot a b = d - 1"
      by (simp add: unfold)
    have la: "1 \<le> bitlen a" using assms(1) by (simp add: bitlen_ge_iff_power)
    have lb: "0 \<le> bitlen b" by (rule bitlen_nonneg)
    have "2 ^ nat (bitlen a - 1) \<le> a" "b < 2 ^ nat (bitlen b)"
      using bitlen_bounds [OF assms(1)] bitlen_bounds [OF assms(2)] by simp_all
    then have a: "(2 :: rat) ^ nat (bitlen a - 1) \<le> of_int a"
      and b: "(of_int b :: rat) \<le> 2 ^ nat (bitlen b)"
      by (metis of_int_le_iff of_int_numeral of_int_power,
          metis less_imp_le of_int_le_iff of_int_numeral of_int_power)
    have split: "(2 :: rat) powi (d - 1) = 2 ^ nat (bitlen a - 1) / 2 ^ nat (bitlen b)"
    proof -
      have "d - 1 = (bitlen a - 1) - bitlen b" by (simp add: d_def)
      then have "(2 :: rat) powi (d - 1) = 2 powi (bitlen a - 1) / 2 powi (bitlen b)"
        by (simp add: power_int_diff)
      then show ?thesis using la lb by (simp add: power_int_def)
    qed
    have "of_int b * (2 :: rat) ^ nat (bitlen a - 1) \<le> 2 ^ nat (bitlen b) * of_int a"
      using a b assms by (intro mult_mono) simp_all
    then have "of_int b * ((2 :: rat) ^ nat (bitlen a - 1) / 2 ^ nat (bitlen b)) \<le> of_int a"
      by (simp add: field_simps)
    then show ?thesis unfolding fl split .
  qed
qed

lemma floor_log2_quot_small:
  assumes "0 < a" and "0 < b" and "a < 65536 * b"
  shows "floor_log2_quot a b \<le> 16"
proof -
  have "b < 2 ^ nat (bitlen b)" using bitlen_bounds [OF assms(2)] by simp
  then have "a < 2 ^ 16 * 2 ^ nat (bitlen b)" using assms(3) by simp
  also have "\<dots> = 2 ^ nat (bitlen b + 16)"
    using bitlen_nonneg [of b] by (simp add: nat_add_distrib power_add)
  finally have "bitlen a \<le> bitlen b + 16"
    using bitlen_nonneg [of b] by (simp add: bitlen_le_iff_power)
  then show ?thesis by (simp add: floor_log2_quot_def Let_def)
qed


lemma nearest_double_small:
  assumes "0 < a" and "0 < b" and "a < 65536 * b"
  obtains m e where "nearest_double a b = (m, e)" and "e < 0"
    and "\<bar>of_int m / 2 ^ nat (- e) - (of_int a / of_int b :: rat)\<bar>
           \<le> rounding_error (of_int a / of_int b)"
proof -
  define fl where "fl = floor_log2_quot a b"
  define e where "e = max (fl - 52) (- 1074)"
  define k where "k = nat (- e)"
  define m where "m = round_half_even_div (a * 2 ^ k) b"
  let ?q = "of_int a / of_int b :: rat"
  have b: "(0 :: rat) < of_int b" using assms(2) by simp
  have "fl \<le> 16" unfolding fl_def using assms by (rule floor_log2_quot_small)
  then have neg: "e < 0" by (simp add: e_def)
  have nd: "nearest_double a b = (m, e)"
    using neg by (simp add: nearest_double_def Let_def fl_def e_def m_def k_def)
  have pow: "(1 :: rat) / 2 ^ k = 2 powi e"
    using neg by (simp add: k_def power_int_def power_divide)
  have "\<bar>of_int m - (of_int (a * 2 ^ k) / of_int b :: rat)\<bar> \<le> 1 / 2"
    unfolding m_def using assms(2) by (rule round_half_even_div_close)
  then have "\<bar>of_int m - ?q * 2 ^ k\<bar> \<le> 1 / 2"
    by (simp add: field_simps)
  then have "\<bar>of_int m - ?q * 2 ^ k\<bar> / 2 ^ k \<le> (1 / 2) / 2 ^ k"
    by (intro divide_right_mono) simp_all
  moreover have "\<bar>of_int m - ?q * 2 ^ k\<bar> / 2 ^ k = \<bar>of_int m / 2 ^ k - ?q\<bar>"
  proof -
    have "\<bar>of_int m - ?q * 2 ^ k\<bar> / 2 ^ k = \<bar>(of_int m - ?q * 2 ^ k) / 2 ^ k\<bar>"
      by simp
    also have "(of_int m - ?q * 2 ^ k) / 2 ^ k = of_int m / 2 ^ k - ?q"
      by (simp add: field_simps)
    finally show ?thesis .
  qed
  ultimately have close: "\<bar>of_int m / 2 ^ k - ?q\<bar> \<le> 2 powi e / 2"
    using pow by simp
  have "2 powi e / 2 \<le> rounding_error ?q"
  proof (cases "fl - 52 \<le> - 1074")
    case True
    then have "e = - 1074" by (simp add: e_def)
    then have "(2 :: rat) powi e / 2 = 1 / 2 ^ 1075"
      by (simp add: power_int_def power_divide)
    then show ?thesis by (simp add: rounding_error_def)
  next
    case False
    then have e: "e = fl - 52" by (simp add: e_def)
    have "of_int b * 2 powi fl \<le> (of_int a :: rat)"
      unfolding fl_def using assms(1,2) by (rule floor_log2_quot_lower)
    then have "(2 :: rat) powi fl \<le> ?q"
      using b by (simp add: field_simps)
    moreover have "(2 :: rat) powi e / 2 = 2 powi fl / 2 ^ 53"
    proof -
      have "(2 :: rat) powi e = 2 powi fl / 2 powi 52"
        unfolding e by (simp add: power_int_diff)
      then show ?thesis by simp
    qed
    ultimately have "(2 :: rat) powi e / 2 \<le> ?q / 2 ^ 53"
      by (simp add: divide_right_mono)
    then show ?thesis by (simp add: rounding_error_def)
  qed
  with close have "\<bar>of_int m / 2 ^ nat (- e) - ?q\<bar> \<le> rounding_error ?q"
    by (simp add: k_def)
  with nd neg show ?thesis by (rule that)
qed

lemma py_truediv_small:
  assumes "0 \<le> a" and "0 < b" and "a < 65536 * b"
  shows "py_truediv a b = Inr (double_value (nearest_double a b))
     \<and> \<bar>double_value (nearest_double a b) - (of_int a / of_int b :: rat)\<bar>
         \<le> rounding_error (of_int a / of_int b)"
proof (cases "a = 0")
  case True
  have "snd (nearest_double 0 b) = e \<Longrightarrow> double_value (nearest_double 0 b) = 0" for e
    using assms(2)
    by (auto simp: nearest_double_def Let_def double_value_def round_half_even_div_zero)
  then have "double_value (nearest_double 0 b) = 0" by simp
  then show ?thesis
    using assms(2) True by (simp add: py_truediv_def rounding_error_def)
next
  case False
  then have pos: "0 < a" using assms(1) by simp
  from pos assms(2,3) obtain m e where nd: "nearest_double a b = (m, e)" and neg: "e < 0"
    and close: "\<bar>of_int m / 2 ^ nat (- e) - (of_int a / of_int b :: rat)\<bar>
        \<le> rounding_error (of_int a / of_int b)"
    by (rule nearest_double_small)
  have val: "double_value (m, e) = of_int m / 2 ^ nat (- e)"
    using neg by (simp add: double_value_def)
  have "py_truediv a b = Inr (double_value (m, e))"
    using pos assms(2) neg nd by (simp add: py_truediv_def)
  with close show ?thesis by (simp add: nd val)
qed


section \<open>The averages are the rounded means of the non-null values\<close>

lemma py_sum_ints: "py_sum acc (map PInt xs) = Inr (acc + sum_list xs)"
  by (induction xs arbitrary: acc) simp_all

lemma values_of_readings:
  assumes "list_all (reading_at key) records"
  shows "values_of key records = map PInt (non_null_values key records)
     \<and> list_all (\<lambda>i. 0 \<le> i \<and> i < 65536) (non_null_values key records)"
  using assms
proof (induction records)
  case Nil
  show ?case by (simp add: values_of_def non_null_values_def)
next
  case (Cons m records)
  then have ih: "values_of key records = map PInt (non_null_values key records)"
    "list_all (\<lambda>i. 0 \<le> i \<and> i < 65536) (non_null_values key records)"
    and num: "reading_at key m" by simp_all
  have split: "values_of key (m # records) =
      (if map_of m key \<noteq> None \<and> dict_get m key \<noteq> PNone then [dict_get m key] else [])
      @ values_of key records"
    by (simp add: values_of_def)
  have nn: "non_null_values key (m # records) =
      (case dict_get m key of PInt i \<Rightarrow> [i] | _ \<Rightarrow> []) @ non_null_values key records"
    by (simp add: non_null_values_def)
  show ?case
  proof (cases "dict_get m key")
    case PNone
    then show ?thesis unfolding split nn using ih by simp
  next
    case (PInt i)
    then have "map_of m key \<noteq> None"
      by (auto simp: dict_get_def split: option.splits)
    moreover have "0 \<le> i \<and> i < 65536"
      using num PInt by (simp add: reading_at_def)
    ultimately show ?thesis unfolding split nn using ih PInt by simp
  next
    case (PStr s)
    with num show ?thesis by (simp add: reading_at_def)
  qed
qed

lemma sum_list_readings:
  assumes "list_all (\<lambda>i. 0 \<le> i \<and> i < 65536) xs"
  shows "0 \<le> sum_list xs \<and> sum_list xs \<le> 65535 * int (length xs)"
  using assms by (induction xs) auto

lemma mean_as_double_readings:
  assumes "list_all (\<lambda>i. 0 \<le> i \<and> i < 65536) xs" and "xs \<noteq> []"
  shows "py_truediv (sum_list xs) (int (length xs)) = Inr (mean_as_double xs)
     \<and> \<bar>mean_as_double xs - mean xs\<bar> \<le> rounding_error (mean xs)"
proof -
  have len: "0 < int (length xs)" using assms(2) by simp
  have "0 \<le> sum_list xs" "sum_list xs < 65536 * int (length xs)"
    using sum_list_readings [OF assms(1)] len by linarith+
  from py_truediv_small [OF this(1) len this(2)] show ?thesis
    by (simp add: mean_as_double_def mean_def)
qed

lemma average_keys_readings:
  assumes "list_all (\<lambda>key. list_all (reading_at key) records) keys"
  shows "average_keys keys records avg_data =
           Inr (fold (\<lambda>key. AList.update key (mean_or_null key records)) keys avg_data)"
  using assms
proof (induction keys arbitrary: avg_data)
  case Nil
  show ?case by simp
next
  case (Cons key keys)
  then have readings: "list_all (reading_at key) records" by simp
  note vals = values_of_readings [OF readings]
  have rest: "\<And>avg. average_keys keys records avg =
      Inr (fold (\<lambda>key. AList.update key (mean_or_null key records)) keys avg)"
    using Cons by simp
  show ?case
  proof (cases "non_null_values key records = []")
    case True
    then show ?thesis
      using vals by (simp add: rest mean_or_null_def)
  next
    case False
    with vals have "py_truediv (sum_list (non_null_values key records))
        (int (length (non_null_values key records))) =
        Inr (mean_as_double (non_null_values key records))"
      using mean_as_double_readings by blast
    then show ?thesis
      using vals False by (simp add: py_sum_ints bind_exn_def rest mean_or_null_def)
  qed
qed

lemma reading_fields_all:
  assumes "list_all reading_fields records"
  shows "list_all (\<lambda>key. list_all (reading_at key) records) keys_to_average"
  using assms by (auto simp: reading_fields_def list_all_iff)

lemma reading_fields_stored_record: "reading_fields (stored_record t d)"
  using le16_range [of d 14] le16_range [of d 16] le16_range [of d 18]
  by (simp add: reading_fields_def keys_to_average_def reading_at_def stored_record_def
      primary_dict_def dict_get_def)

lemma reading_fields_deliver:
  "list_all reading_fields cm \<Longrightarrow> list_all reading_fields (deliver notification_handler frames cm)"
proof (induction frames arbitrary: cm)
  case Nil
  then show ?case by simp
next
  case (Cons f frames)
  obtain t u d where f: "f = (t, u, d)" by (cases f)
  show ?case
    unfolding f deliver_notification_handler_Cons
    using Cons.prems by (auto intro!: Cons.IH simp: reading_fields_stored_record)
qed

text \<open>
  C8, as the code has it. For a list of records that is not empty, and whose averaged
  fields hold unsigned 16-bit integers, null or nothing (as every buffer that
  \<^verbatim>\<open>notification_handler\<close> fills does), \<^verbatim>\<open>calculate_average\<close> raises nothing and
  reports for each of RawVal_1, RawVal_2, RawVal_3 and RawBattery_mV the double that
  Python's division gives for the sum and the number of the field's non-null values,
  and null when the field has none. That double is the arithmetic mean of these values
  up to rounding: it differs from the mean by at most the mean divided by \<open>2 ^ 53\<close>.
  For the empty list no field is reported: the result is the empty dictionary.
\<close>

theorem calculate_average_mean:
  "calculate_average [] = Inr []
   \<and> (records \<noteq> [] \<and> list_all reading_fields records \<longrightarrow>
        calculate_average records =
          Inr [(''RawVal_1'', mean_or_null ''RawVal_1'' records),
               (''RawVal_2'', mean_or_null ''RawVal_2'' records),
               (''RawVal_3'', mean_or_null ''RawVal_3'' records),
               (''RawBattery_mV'', mean_or_null ''RawBattery_mV'' records)]
        \<and> list_all
            (\<lambda>key. non_null_values key records \<noteq> [] \<longrightarrow>
               \<bar>mean_as_double (non_null_values key records)
                  - mean (non_null_values key records)\<bar>
               \<le> rounding_error (mean (non_null_values key records)))
            keys_to_average)
   \<and> list_all reading_fields (deliver notification_handler frames [])"
proof (intro conjI impI)
  show "calculate_average [] = Inr []"
    by (simp add: calculate_average_def)
  show "list_all reading_fields (deliver notification_handler frames [])"
    by (rule reading_fields_deliver) simp
next
  assume a: "records \<noteq> [] \<and> list_all reading_fields records"
  then have all: "list_all (\<lambda>key. list_all (reading_at key) records) keys_to_average"
    by (intro reading_fields_all) simp
  then have "average_keys keys_to_average records [] =
      Inr (fold (\<lambda>key. AList.update key (mean_or_null key records)) keys_to_average [])"
    by (rule average_keys_readings)
  then show "calculate_average records =
      Inr [(''RawVal_1'', mean_or_null ''RawVal_1'' records),
           (''RawVal_2'', mean_or_null ''RawVal_2'' records),
           (''RawVal_3'', mean_or_null ''RawVal_3'' records),
           (''RawBattery_mV'', mean_or_null ''RawBattery_mV'' records)]"
    using a by (simp add: calculate_average_def keys_to_average_def)
  have "non_null_values key records \<noteq> [] \<longrightarrow>
      \<bar>mean_as_double (non_null_values key records) - mean (non_null_values key records)\<bar>
      \<le> rounding_error (mean (non_null_values key records))"
    if "list_all (reading_at key) records" for key
    using values_of_readings [OF that] mean_as_double_readings by blast
  with all show "list_all
      (\<lambda>key. non_null_values key records \<noteq> [] \<longrightarrow>
         \<bar>mean_as_double (non_null_values key records)
            - mean (non_null_values key records)\<bar>
         \<le> rounding_error (mean (non_null_values key records)))
      keys_to_average"
    by (simp add: list_all_iff)
qed

text \<open>
  C8, as the spec words it, fails twice. On the empty list no field is reported as
  null, since the result has no entry for any field. On the readings 1, 1 and 2 the
  reported value is not their arithmetic mean 4/3 but the double next to it.
\<close>

theorem calculate_average_counterexample:
  "\<not> (\<exists>avg_data. calculate_average [] = Inr avg_data
         \<and> map_of avg_data ''RawVal_1'' = Some None)
   \<and> \<not> (\<exists>avg_data.
           calculate_average
             [[(''RawVal_1'', PInt 1)], [(''RawVal_1'', PInt 1)], [(''RawVal_1'', PInt 2)]] =
             Inr avg_data
           \<and> map_of avg_data ''RawVal_1'' = Some (Some (4 / 3)))"
proof -
  have "calculate_average
      [[(''RawVal_1'', PInt 1)], [(''RawVal_1'', PInt 1)], [(''RawVal_1'', PInt 2)]] =
      Inr [(''RawVal_1'', Some (6004799503160661 / 4503599627370496)), (''RawVal_2'', None),
           (''RawVal_3'', None), (''RawBattery_mV'', None)]"
    by code_simp
  then show ?thesis by (simp add: calculate_average_def)
qed

theorem calculate_average_mean_witness:
  "calculate_average
     [[(''RawVal_1'', PInt 1)], [(''RawVal_1'', PInt 1), (''RawVal_2'', PNone)],
      [(''RawVal_1'', PInt 2)]] =
     Inr [(''RawVal_1'', Some (6004799503160661 / 4503599627370496)), (''RawVal_2'', None),
          (''RawVal_3'', None), (''RawBattery_mV'', None)]
   \<and> \<bar>(6004799503160661 / 4503599627370496 :: rat) - 4 / 3\<bar> \<le> (4 / 3) / 2 ^ 53"
proof -
  let ?records = "[[(''RawVal_1'', PInt 1)], [(''RawVal_1'', PInt 1), (''RawVal_2'', PNone)],
      [(''RawVal_1'', PInt 2)]]"
  have readings: "?records \<noteq> [] \<and> list_all reading_fields ?records"
    by (simp add: reading_fields_def keys_to_average_def reading_at_def dict_get_def)
  have nn: "non_null_values ''RawVal_1'' ?records = [1, 1, 2]"
    "non_null_values ''RawVal_2'' ?records = []"
    "non_null_values ''RawVal_3'' ?records = []"
    "non_null_values ''RawBattery_mV'' ?records = []"
    by (simp_all add: non_null_values_def dict_get_def)
  have rounded: "mean_as_double [1, 1, 2] = 6004799503160661 / 4503599627370496"
    by code_simp
  have mean3: "mean [1, 1, 2] = 4 / 3"
    by (simp add: mean_def)
  have bound: "rounding_error (4 / 3) = (4 / 3) / 2 ^ 53"
    by (simp add: rounding_error_def)
  show ?thesis
    using calculate_average_mean [of ?records "[]"] readings
    by (simp add: mean_or_null_def nn rounded mean3 bound keys_to_average_def)
qed


section \<open>The polling loop\<close>





section \<open>The phase after a failed write\<close>














end
